theory Spec2Isabelle
  imports Complex_Main "HOL-Library.Log_Nat"
begin

section \<open>JavaScript values used by the pipeline\<close>

text \<open>
  Strings are byte lists. An optional field \<open>f?: string\<close> is a \<open>string option\<close>
  (\<open>None\<close> is \<open>undefined\<close>). A condition \<open>if (x.f)\<close> on such a field holds when the
  field is present and not the empty string.
\<close>

definition truthy_str :: "string option \<Rightarrow> bool" where
  "truthy_str s = (case s of None \<Rightarrow> False | Some v \<Rightarrow> v \<noteq> [])"

text \<open>\<open>row.f || undefined\<close>: a NULL or empty column becomes \<open>undefined\<close>.\<close>

definition or_undefined :: "string option \<Rightarrow> string option" where
  "or_undefined s = (if truthy_str s then s else None)"

text \<open>
  \<open>String.prototype.toLowerCase\<close> is the platform's, and a parameter \<open>toLowerCase\<close> of
  every function that calls it. \<open>ascii_lower\<close> is the instance used in the examples: it
  lower-cases the ASCII letters and leaves other bytes as they are.
\<close>

definition lower_char :: "char \<Rightarrow> char" where
  "lower_char c =
     (let n = (of_char c :: nat) in if 65 \<le> n \<and> n \<le> 90 then char_of (n + 32) else c)"

definition ascii_lower :: "string \<Rightarrow> string" where
  "ascii_lower s = map lower_char s"

text \<open>\<open>a.includes(b)\<close>: \<open>b\<close> occurs in \<open>a\<close> as a contiguous run.\<close>

fun starts_with :: "string \<Rightarrow> string \<Rightarrow> bool" where
  "starts_with s [] = True"
| "starts_with [] (c # t) = False"
| "starts_with (d # s) (c # t) = (d = c \<and> starts_with s t)"

fun str_includes :: "string \<Rightarrow> string \<Rightarrow> bool" where
  "str_includes [] t = (t = [])"
| "str_includes (d # s) t = (starts_with (d # s) t \<or> str_includes s t)"

text \<open>\<open>s.split(sep)\<close> for a one-character separator.\<close>

fun split_on :: "char \<Rightarrow> string \<Rightarrow> string list" where
  "split_on sep [] = [[]]"
| "split_on sep (c # s) =
     (if c = sep then [] # split_on sep s
      else (case split_on sep s of [] \<Rightarrow> [[c]] | w # ws \<Rightarrow> (c # w) # ws))"

text \<open>\<open>email.split('@')[1]\<close>: the second piece, \<open>undefined\<close> when there is no \<open>@\<close>.\<close>

definition email_domain :: "string \<Rightarrow> string option" where
  "email_domain e = (case split_on CHR ''@'' e of [] \<Rightarrow> None | [a] \<Rightarrow> None | a # d # r \<Rightarrow> Some d)"

text \<open>\<open>phone.replace(/\D/g, '')\<close>: the decimal digits of the string, in order.\<close>

definition is_digit :: "char \<Rightarrow> bool" where
  "is_digit c = (let n = (of_char c :: nat) in 48 \<le> n \<and> n \<le> 57)"

definition digits_of :: "string \<Rightarrow> string" where
  "digits_of s = filter is_digit s"

subsection \<open>Numbers: IEEE 754 binary64\<close>

text \<open>
  A JavaScript number is a binary64 float. The scores of this program are sums of a few
  decimal literals, so a finite double is modelled as the rational it denotes, a literal
  \<open>0.15\<close> as \<open>fl (15/100)\<close>, and \<open>a + b\<close> as \<open>fl (a + b)\<close>: the exact sum rounded to the
  nearest double, ties to even. The values met here lie between \<open>2^-5\<close> and \<open>2\<close>, far from
  overflow and from the subnormal range, which \<open>fl\<close> does not model.
\<close>

definition pow2 :: "int \<Rightarrow> rat" where
  "pow2 e = (if 0 \<le> e then 2 ^ nat e else 1 / 2 ^ nat (- e))"

text \<open>
  The exponent \<open>e\<close> with \<open>2^e \<le> x < 2^(e+1)\<close>, for \<open>x > 0\<close>: one less than the bit
  length (\<open>bitlen\<close> of the library) of \<open>\<lfloor>x\<rfloor>\<close> from 1 on, and below 1 the negated bit length of \<open>\<lceil>1/x\<rceil> - 1\<close>.
\<close>

definition ilog2 :: "rat \<Rightarrow> int" where
  "ilog2 x = (if 1 \<le> x then bitlen \<lfloor>x\<rfloor> - 1 else - bitlen (\<lceil>1 / x\<rceil> - 1))"

definition round_half_even :: "rat \<Rightarrow> int" where
  "round_half_even q =
     (let f = \<lfloor>q\<rfloor>; r = q - of_int f
      in if r < 1 / 2 then f else if 1 / 2 < r then f + 1 else if even f then f else f + 1)"

definition fl :: "rat \<Rightarrow> rat" where
  "fl x =
     (if x = 0 then 0
      else let a = \<bar>x\<bar>; u = pow2 (ilog2 a - 52)
           in sgn x * of_int (round_half_even (a / u)) * u)"

definition fadd :: "rat \<Rightarrow> rat \<Rightarrow> rat" where
  "fadd x y = fl (x + y)"

definition fmul :: "rat \<Rightarrow> rat \<Rightarrow> rat" where
  "fmul x y = fl (x * y)"

text \<open>
  \<open>x.toFixed(0)\<close> for \<open>0 \<le> x\<close>: the nearest integer, the larger one on a tie, in decimal.
\<close>

definition digit_char :: "nat \<Rightarrow> char" where
  "digit_char d = char_of (48 + d)"

function show_int :: "int \<Rightarrow> string" where
  "show_int n = (if n < 10 then [digit_char (nat n)] else show_int (n div 10) @ [digit_char (nat (n mod 10))])"
  by pat_completeness auto
termination
  by (relation "measure nat") auto

declare show_int.simps [simp del]

definition toFixed0 :: "rat \<Rightarrow> string" where
  "toFixed0 x = show_int \<lfloor>x + 1 / 2\<rfloor>"

section \<open>Data model (pipeline/types.ts, db/repositories/researchers.ts)\<close>

text \<open>\<open>ParsedResearcher\<close>: the candidate record produced by normalisation.\<close>

record ParsedResearcher =
  first_name :: string
  last_name :: string
  full_name :: string
  university :: string
  department :: string
  title :: "string option"
  email :: "string option"
  phone :: "string option"
  office :: "string option"
  website :: "string option"
  photo_url :: "string option"
  research_areas :: "string list option"

datatype enrichment_status = pending | in_progress | complete | failed

text \<open>
  \<open>ResearcherRow\<close>: one row of the table \<open>researchers\<close>; \<open>None\<close> is SQL NULL. The column
  \<open>research_areas\<close> holds the JSON text of an array of strings and is kept here as the
  array it parses to. The two timestamps \<open>created_at\<close> and \<open>updated_at\<close> are not modelled.
\<close>

record ResearcherRow =
  row_id :: int
  row_first_name :: string
  row_last_name :: string
  row_full_name :: string
  row_university :: "string option"
  row_department :: "string option"
  row_title :: "string option"
  row_email :: "string option"
  row_phone :: "string option"
  row_office :: "string option"
  row_website :: "string option"
  row_photo_url :: "string option"
  row_google_scholar_url :: "string option"
  row_dblp_url :: "string option"
  row_semantic_scholar_id :: "string option"
  row_orcid :: "string option"
  row_h_index :: "int option"
  row_citations_total :: int
  row_publications_count :: int
  row_research_areas :: "string list option"
  row_bio :: "string option"
  row_source_directory_id :: "int option"
  row_enrichment_status :: enrichment_status
  row_enrichment_error :: "string option"
  row_last_verified :: "string option"

text \<open>
  \<open>Researcher\<close>: the canonical record. The interface declares \<open>citations_total: number\<close>
  and a record read from the store always has it (the column defaults to 0), but the
  repository's own tests of the merge step build records without the field, so it is
  optional here, as it is at run time.
\<close>

record Researcher =
  r_id :: int
  r_first_name :: string
  r_last_name :: string
  r_full_name :: string
  r_university :: "string option"
  r_department :: "string option"
  r_title :: "string option"
  r_email :: "string option"
  r_phone :: "string option"
  r_office :: "string option"
  r_website :: "string option"
  r_photo_url :: "string option"
  r_google_scholar_url :: "string option"
  r_dblp_url :: "string option"
  r_semantic_scholar_id :: "string option"
  r_orcid :: "string option"
  r_h_index :: "int option"
  r_citations_total :: "int option"
  r_publications_count :: int
  r_research_areas :: "string list option"
  r_bio :: "string option"
  r_source_directory_id :: "int option"
  r_enrichment_status :: enrichment_status
  r_enrichment_error :: "string option"
  r_last_verified :: "string option"

definition num_or_undefined :: "int option \<Rightarrow> int option" where
  "num_or_undefined n = (case n of None \<Rightarrow> None | Some v \<Rightarrow> if v = 0 then None else Some v)"

definition rowToResearcher :: "ResearcherRow \<Rightarrow> Researcher" where
  "rowToResearcher row =
     \<lparr> r_id = row_id row,
       r_first_name = row_first_name row,
       r_last_name = row_last_name row,
       r_full_name = row_full_name row,
       r_university = or_undefined (row_university row),
       r_department = or_undefined (row_department row),
       r_title = or_undefined (row_title row),
       r_email = or_undefined (row_email row),
       r_phone = or_undefined (row_phone row),
       r_office = or_undefined (row_office row),
       r_website = or_undefined (row_website row),
       r_photo_url = or_undefined (row_photo_url row),
       r_google_scholar_url = or_undefined (row_google_scholar_url row),
       r_dblp_url = or_undefined (row_dblp_url row),
       r_semantic_scholar_id = or_undefined (row_semantic_scholar_id row),
       r_orcid = or_undefined (row_orcid row),
       r_h_index = num_or_undefined (row_h_index row),
       r_citations_total = Some (row_citations_total row),
       r_publications_count = row_publications_count row,
       r_research_areas = row_research_areas row,
       r_bio = or_undefined (row_bio row),
       r_source_directory_id = num_or_undefined (row_source_directory_id row),
       r_enrichment_status = row_enrichment_status row,
       r_enrichment_error = or_undefined (row_enrichment_error row),
       r_last_verified = or_undefined (row_last_verified row) \<rparr>"

text \<open>
  The two lookups of step 6. \<open>rows\<close> are the rows of the table in the order in which the
  engine enumerates them for the statement; SQL leaves that order open, neither statement
  having an ORDER BY. \<open>.get(...)\<close> returns the first row enumerated that satisfies the
  WHERE clause. A comparison with NULL is never true.
\<close>

definition findByEmail :: "(string \<Rightarrow> string) \<Rightarrow> ResearcherRow list \<Rightarrow> string \<Rightarrow> Researcher option" where
  "findByEmail toLowerCase rows e =
     map_option rowToResearcher (find (\<lambda>row. row_email row = Some (toLowerCase e)) rows)"

definition findByNameAndUniversity ::
  "ResearcherRow list \<Rightarrow> string \<Rightarrow> string \<Rightarrow> string \<Rightarrow> Researcher option" where
  "findByNameAndUniversity rows fullName uni dept =
     map_option rowToResearcher
       (find (\<lambda>row. row_full_name row = fullName \<and> row_university row = Some uni \<and>
                    (dept = [] \<or> row_department row = Some dept)) rows)"

section \<open>Step 6: deduplicate (pipeline/steps/06-deduplicate.ts)\<close>

datatype action = Insert | Update | Skip

record DedupeDecision =
  d_researcher :: ParsedResearcher
  d_action :: action
  d_existing_id :: "int option"
  d_match_reason :: "string option"
  d_confidence :: rat

text \<open>
  \<open>checkForChanges\<close>: a candidate field counts only when it is populated; the stored
  value it is compared with may be absent.
\<close>

definition new_areas :: "string list option \<Rightarrow> string list option \<Rightarrow> string list" where
  "new_areas inc ex =
     (case inc of None \<Rightarrow> []
      | Some as \<Rightarrow> filter (\<lambda>a. a \<notin> set (case ex of None \<Rightarrow> [] | Some es \<Rightarrow> es)) as)"

definition checkForChanges :: "ParsedResearcher \<Rightarrow> Researcher \<Rightarrow> bool" where
  "checkForChanges incoming existing =
     (if truthy_str (title incoming) \<and> title incoming \<noteq> r_title existing then True
      else if truthy_str (email incoming) \<and> email incoming \<noteq> r_email existing then True
      else if truthy_str (phone incoming) \<and> phone incoming \<noteq> r_phone existing then True
      else if truthy_str (office incoming) \<and> office incoming \<noteq> r_office existing then True
      else if truthy_str (website incoming) \<and> website incoming \<noteq> r_website existing then True
      else if (case research_areas incoming of None \<Rightarrow> False | Some as \<Rightarrow> 0 < length as) \<and>
              0 < length (new_areas (research_areas incoming) (r_research_areas existing))
           then True
      else False)"

text \<open>
  \<open>calculateMatchConfidence\<close>: the four blocks of the source, each taking the running
  \<open>score\<close> to its next value. \<open>new URL(s).hostname\<close> is the platform's URL parser and is
  a parameter \<open>hostname\<close>: \<open>None\<close> when the constructor throws, which the \<open>try\<close> block of
  the source swallows without adding the bonus.
\<close>

definition title_boost :: "(string \<Rightarrow> string) \<Rightarrow> ParsedResearcher \<Rightarrow> Researcher \<Rightarrow> rat \<Rightarrow> rat" where
  "title_boost toLowerCase incoming existing score =
     (if truthy_str (title incoming) \<and> truthy_str (r_title existing) then
        (if toLowerCase (the (title incoming)) = toLowerCase (the (r_title existing))
         then fadd score (fl (2 / 10))
         else if str_includes (toLowerCase (the (title incoming)))
                              (toLowerCase (the (r_title existing))) \<or>
                 str_includes (toLowerCase (the (r_title existing)))
                              (toLowerCase (the (title incoming)))
         then fadd score (fl (1 / 10))
         else score)
      else score)"

definition email_boost :: "ParsedResearcher \<Rightarrow> Researcher \<Rightarrow> rat \<Rightarrow> rat" where
  "email_boost incoming existing score =
     (if truthy_str (email incoming) \<and> truthy_str (r_email existing) then
        (if email_domain (the (email incoming)) = email_domain (the (r_email existing))
         then fadd score (fl (15 / 100)) else score)
      else score)"

definition phone_boost :: "ParsedResearcher \<Rightarrow> Researcher \<Rightarrow> rat \<Rightarrow> rat" where
  "phone_boost incoming existing score =
     (if truthy_str (phone incoming) \<and> truthy_str (r_phone existing) then
        (if digits_of (the (phone incoming)) = digits_of (the (r_phone existing))
         then fadd score (fl (1 / 10)) else score)
      else score)"

definition website_boost ::
  "(string \<Rightarrow> string option) \<Rightarrow> ParsedResearcher \<Rightarrow> Researcher \<Rightarrow> rat \<Rightarrow> rat" where
  "website_boost hostname incoming existing score =
     (if truthy_str (website incoming) \<and> truthy_str (r_website existing) then
        (case hostname (the (website incoming)) of
           None \<Rightarrow> score
         | Some incomingHost \<Rightarrow>
             (case hostname (the (r_website existing)) of
                None \<Rightarrow> score
              | Some existingHost \<Rightarrow>
                  if incomingHost = existingHost then fadd score (fl (5 / 100)) else score))
      else score)"

definition calculateMatchConfidence ::
  "(string \<Rightarrow> string) \<Rightarrow> (string \<Rightarrow> string option) \<Rightarrow> ParsedResearcher \<Rightarrow> Researcher \<Rightarrow> rat" where
  "calculateMatchConfidence toLowerCase hostname incoming existing =
     (let score = 1 / 2;
          score = title_boost toLowerCase incoming existing score;
          score = email_boost incoming existing score;
          score = phone_boost incoming existing score;
          score = website_boost hostname incoming existing score
      in min score 1)"

text \<open>\<open>checkDuplicate\<close>; the directory id is not used by the source either.\<close>

definition checkDuplicate ::
  "(string \<Rightarrow> string) \<Rightarrow> (string \<Rightarrow> string option) \<Rightarrow> ResearcherRow list \<Rightarrow> ParsedResearcher \<Rightarrow> int \<Rightarrow> DedupeDecision" where
  "checkDuplicate toLowerCase hostname rows researcher directoryId =
     (case (if truthy_str (email researcher) then findByEmail toLowerCase rows (the (email researcher)) else None) of
        Some byEmail \<Rightarrow>
          (if checkForChanges researcher byEmail
           then \<lparr> d_researcher = researcher, d_action = Update, d_existing_id = Some (r_id byEmail),
                  d_match_reason = Some ''Email match with data changes'', d_confidence = 1 \<rparr>
           else \<lparr> d_researcher = researcher, d_action = Skip, d_existing_id = Some (r_id byEmail),
                  d_match_reason = Some ''Exact email match'', d_confidence = 1 \<rparr>)
      | None \<Rightarrow>
          (case (if university researcher \<noteq> []
                 then findByNameAndUniversity rows (full_name researcher) (university researcher)
                        (department researcher)
                 else None) of
             Some byName \<Rightarrow>
               (let confidence = calculateMatchConfidence toLowerCase hostname researcher byName in
                if fl (9 / 10) \<le> confidence then
                  (if checkForChanges researcher byName
                   then \<lparr> d_researcher = researcher, d_action = Update,
                          d_existing_id = Some (r_id byName),
                          d_match_reason = Some (''Name+university match ('' @
                             toFixed0 (fmul confidence 100) @ ''% confidence)''),
                          d_confidence = confidence \<rparr>
                   else \<lparr> d_researcher = researcher, d_action = Skip,
                          d_existing_id = Some (r_id byName),
                          d_match_reason = Some ''Exact name+university match'',
                          d_confidence = confidence \<rparr>)
                else \<lparr> d_researcher = researcher, d_action = Insert, d_existing_id = None,
                       d_match_reason = None, d_confidence = 1 \<rparr>)
           | None \<Rightarrow>
               \<lparr> d_researcher = researcher, d_action = Insert, d_existing_id = None,
                 d_match_reason = None, d_confidence = 1 \<rparr>))"

record Step6Input =
  researchers :: "ParsedResearcher list"
  directory_id :: int

record ToUpdate =
  u_researcher :: ParsedResearcher
  u_existing_id :: int

record Duplicate =
  dup_researcher :: ParsedResearcher
  dup_existing_id :: int
  dup_reason :: string

record Step6Stats =
  total_input :: nat
  stat_to_insert :: nat
  stat_to_update :: nat
  stat_duplicates :: nat

record Step6Output =
  to_insert :: "ParsedResearcher list"
  to_update :: "ToUpdate list"
  duplicates :: "Duplicate list"
  stats :: Step6Stats

text \<open>
  The loop of \<open>deduplicate\<close>: the three arrays it pushes to are the accumulator.
  \<open>if (decision.existing_id)\<close> holds for an identity that is present and not 0.
\<close>

definition truthy_id :: "int option \<Rightarrow> bool" where
  "truthy_id i = (case i of None \<Rightarrow> False | Some v \<Rightarrow> v \<noteq> 0)"

fun dedupe_loop ::
  "(string \<Rightarrow> string) \<Rightarrow> (string \<Rightarrow> string option) \<Rightarrow> ResearcherRow list \<Rightarrow> int \<Rightarrow> ParsedResearcher list \<Rightarrow>
   ParsedResearcher list \<times> ToUpdate list \<times> Duplicate list \<Rightarrow>
   ParsedResearcher list \<times> ToUpdate list \<times> Duplicate list" where
  "dedupe_loop toLowerCase hostname rows dir [] acc = acc"
| "dedupe_loop toLowerCase hostname rows dir (researcher # rest) (toInsert, toUpdate, dups) =
     (let decision = checkDuplicate toLowerCase hostname rows researcher dir in
      dedupe_loop toLowerCase hostname rows dir rest
        (case d_action decision of
           Insert \<Rightarrow> (toInsert @ [researcher], toUpdate, dups)
         | Update \<Rightarrow>
             (if truthy_id (d_existing_id decision)
              then (toInsert,
                    toUpdate @ [\<lparr> u_researcher = researcher,
                                   u_existing_id = the (d_existing_id decision) \<rparr>],
                    dups)
              else (toInsert, toUpdate, dups))
         | Skip \<Rightarrow>
             (if truthy_id (d_existing_id decision)
              then (toInsert, toUpdate,
                    dups @ [\<lparr> dup_researcher = researcher,
                               dup_existing_id = the (d_existing_id decision),
                               dup_reason = (if truthy_str (d_match_reason decision)
                                             then the (d_match_reason decision)
                                             else ''Exact duplicate'') \<rparr>])
              else (toInsert, toUpdate, dups))))"

definition deduplicate ::
  "(string \<Rightarrow> string) \<Rightarrow> (string \<Rightarrow> string option) \<Rightarrow> ResearcherRow list \<Rightarrow> Step6Input \<Rightarrow> Step6Output" where
  "deduplicate toLowerCase hostname rows input =
     (case dedupe_loop toLowerCase hostname rows (directory_id input) (researchers input) ([], [], []) of
        (toInsert, toUpdate, dups) \<Rightarrow>
          \<lparr> to_insert = toInsert, to_update = toUpdate, duplicates = dups,
            stats = \<lparr> total_input = length (researchers input),
                      stat_to_insert = length toInsert,
                      stat_to_update = length toUpdate,
                      stat_duplicates = length dups \<rparr> \<rparr>)"

subsection \<open>The composite score as the specification words it\<close>

text \<open>
  The matching signals of a candidate and a stored record, and the score the specification
  describes: base 0.5, plus 0.2 for an exact or 0.1 for a substring title match, plus 0.15
  for the email domain, plus 0.10 for the phone digits, plus 0.05 for the website host,
  capped at 1.0. The sums are floating-point sums, taken in this order.
\<close>

datatype title_match = NoTitleMatch | SubstringTitle | ExactTitle

definition title_rank :: "title_match \<Rightarrow> nat" where
  "title_rank t = (case t of NoTitleMatch \<Rightarrow> 0 | SubstringTitle \<Rightarrow> 1 | ExactTitle \<Rightarrow> 2)"

definition title_signal :: "(string \<Rightarrow> string) \<Rightarrow> ParsedResearcher \<Rightarrow> Researcher \<Rightarrow> title_match" where
  "title_signal toLowerCase incoming existing =
     (if truthy_str (title incoming) \<and> truthy_str (r_title existing) then
        (if toLowerCase (the (title incoming)) = toLowerCase (the (r_title existing))
         then ExactTitle
         else if str_includes (toLowerCase (the (title incoming)))
                              (toLowerCase (the (r_title existing))) \<or>
                 str_includes (toLowerCase (the (r_title existing)))
                              (toLowerCase (the (title incoming)))
         then SubstringTitle
         else NoTitleMatch)
      else NoTitleMatch)"

definition email_signal :: "ParsedResearcher \<Rightarrow> Researcher \<Rightarrow> bool" where
  "email_signal incoming existing =
     (truthy_str (email incoming) \<and> truthy_str (r_email existing) \<and>
      email_domain (the (email incoming)) = email_domain (the (r_email existing)))"

definition phone_signal :: "ParsedResearcher \<Rightarrow> Researcher \<Rightarrow> bool" where
  "phone_signal incoming existing =
     (truthy_str (phone incoming) \<and> truthy_str (r_phone existing) \<and>
      digits_of (the (phone incoming)) = digits_of (the (r_phone existing)))"

definition website_signal ::
  "(string \<Rightarrow> string option) \<Rightarrow> ParsedResearcher \<Rightarrow> Researcher \<Rightarrow> bool" where
  "website_signal hostname incoming existing =
     (truthy_str (website incoming) \<and> truthy_str (r_website existing) \<and>
      hostname (the (website incoming)) \<noteq> None \<and>
      hostname (the (website incoming)) = hostname (the (r_website existing)))"

definition bonus :: "bool \<Rightarrow> rat \<Rightarrow> rat \<Rightarrow> rat" where
  "bonus b x score = (if b then fadd score (fl x) else score)"

definition composite_score :: "title_match \<Rightarrow> bool \<Rightarrow> bool \<Rightarrow> bool \<Rightarrow> rat" where
  "composite_score t e p w =
     min (bonus w (5 / 100)
           (bonus p (10 / 100)
             (bonus e (15 / 100)
               (bonus (t = SubstringTitle) (1 / 10)
                 (bonus (t = ExactTitle) (2 / 10) (1 / 2)))))) 1"

subsection \<open>Change detection and usable matches, as the specification words them\<close>

text \<open>
  A populated candidate field that differs from the stored value, and a research-area tag
  of the candidate that the stored record does not have.
\<close>

definition field_differs :: "string option \<Rightarrow> string option \<Rightarrow> bool" where
  "field_differs inc ex = (truthy_str inc \<and> inc \<noteq> ex)"

definition areas_of :: "string list option \<Rightarrow> string list" where
  "areas_of as = (case as of None \<Rightarrow> [] | Some xs \<Rightarrow> xs)"

definition introduces_new_area :: "string list option \<Rightarrow> string list option \<Rightarrow> bool" where
  "introduces_new_area inc ex = (\<exists>a \<in> set (areas_of inc). a \<notin> set (areas_of ex))"

definition has_new_information :: "ParsedResearcher \<Rightarrow> Researcher \<Rightarrow> bool" where
  "has_new_information c ex =
     (field_differs (title c) (r_title ex) \<or> field_differs (email c) (r_email ex) \<or>
      field_differs (phone c) (r_phone ex) \<or> field_differs (office c) (r_office ex) \<or>
      field_differs (website c) (r_website ex) \<or>
      introduces_new_area (research_areas c) (r_research_areas ex))"

text \<open>
  The rows of the store that carry the candidate's email (the lookup lower-cases it), and
  the two ways in which a candidate has no usable match: no stored row has its email, and
  the lookup by name and university finds nothing or scores below the threshold 0.9.
\<close>

definition rows_with_email :: "(string \<Rightarrow> string) \<Rightarrow> ResearcherRow list \<Rightarrow> string \<Rightarrow> ResearcherRow list" where
  "rows_with_email toLowerCase rows e = filter (\<lambda>row. row_email row = Some (toLowerCase e)) rows"

definition no_email_match :: "(string \<Rightarrow> string) \<Rightarrow> ResearcherRow list \<Rightarrow> ParsedResearcher \<Rightarrow> bool" where
  "no_email_match toLowerCase rows c =
     (if truthy_str (email c) then rows_with_email toLowerCase rows (the (email c)) = [] else True)"

definition no_composite_match ::
  "(string \<Rightarrow> string) \<Rightarrow> (string \<Rightarrow> string option) \<Rightarrow> ResearcherRow list \<Rightarrow> ParsedResearcher \<Rightarrow> bool" where
  "no_composite_match toLowerCase hostname rows c =
     (if university c = [] then True
      else (case findByNameAndUniversity rows (full_name c) (university c) (department c) of
              None \<Rightarrow> True
            | Some m \<Rightarrow> calculateMatchConfidence toLowerCase hostname c m < fl (9 / 10)))"

definition insert_decision :: "ParsedResearcher \<Rightarrow> DedupeDecision" where
  "insert_decision c =
     \<lparr> d_researcher = c, d_action = Insert, d_existing_id = None, d_match_reason = None,
       d_confidence = 1 \<rparr>"

definition positive_ids :: "ResearcherRow list \<Rightarrow> bool" where
  "positive_ids rows = list_all (\<lambda>row. 0 < row_id row) rows"

section \<open>Step E3: merge enrichment data (pipeline/steps/E3-merge-data.ts)\<close>

text \<open>
  Values of type \<open>unknown\<close>, and the objects built field by field (\<open>Partial<Researcher>\<close>,
  \<open>Record<string, unknown>\<close>): a JavaScript value, and a map from property names to values
  in which a missing key is \<open>undefined\<close>.
\<close>

datatype jsvalue =
    JUndefined
  | JNull
  | JBool bool
  | JNum rat
  | JStr string
  | JArr "jsvalue list"
  | JObj "(string \<times> jsvalue) list"

type_synonym jsobject = "string \<rightharpoonup> jsvalue"

text \<open>\<open>if (obj.key)\<close>: the property is there and its value is truthy.\<close>

fun truthy_value :: "jsvalue \<Rightarrow> bool" where
  "truthy_value JUndefined = False"
| "truthy_value JNull = False"
| "truthy_value (JBool b) = b"
| "truthy_value (JNum n) = (n \<noteq> 0)"
| "truthy_value (JStr s) = (s \<noteq> [])"
| "truthy_value (JArr xs) = True"
| "truthy_value (JObj kvs) = True"

definition truthy_prop :: "jsobject \<Rightarrow> string \<Rightarrow> bool" where
  "truthy_prop obj key = (case obj key of None \<Rightarrow> False | Some v \<Rightarrow> truthy_value v)"

definition js_number :: "int option \<Rightarrow> jsvalue" where
  "js_number n = (case n of None \<Rightarrow> JUndefined | Some v \<Rightarrow> JNum (of_int v))"

definition js_strings :: "string list \<Rightarrow> jsvalue" where
  "js_strings xs = JArr (map JStr xs)"

record PublicationInput =
  p_title :: string
  p_authors :: "string list option"
  p_venue :: "string option"
  p_venue_type :: "string option"
  p_year :: "int option"
  p_doi :: "string option"
  p_url :: "string option"
  p_abstract :: "string option"
  p_citations :: "int option"
  p_source :: "string option"
  p_source_id :: "string option"

text \<open>
  \<open>EnrichedData\<close>. The interface declares \<open>publications\<close> as required; the function
  reads it as \<open>enriched.publications || []\<close>, so it is optional here.
\<close>

record EnrichedData =
  e_publications :: "PublicationInput list option"
  e_h_index :: "int option"
  e_citations_total :: "int option"
  e_research_areas :: "string list option"
  e_bio :: "string option"
  e_google_scholar_url :: "string option"
  e_dblp_url :: "string option"
  e_semantic_scholar_id :: "string option"
  e_orcid :: "string option"

record StepE3Input =
  existing :: Researcher
  enriched :: EnrichedData

datatype resolution = keep_existing | use_new | merge

record MergeConflict =
  mc_field :: string
  existing_value :: jsvalue
  new_value :: jsvalue
  resolution :: resolution

record StepE3Output =
  merged :: jsobject
  publications_to_add :: "PublicationInput list"
  conflicts :: "MergeConflict list"
  confidence :: rat

text \<open>
  The blocks of \<open>mergeEnrichmentData\<close>, each taking the pair of \<open>merged\<close> and
  \<open>conflicts\<close> to its next value.

  The h-index: a conflict when both values are there and differ; the new value is adopted
  when it is larger, or when there is no existing value.
\<close>

definition merge_h_index ::
  "Researcher \<Rightarrow> EnrichedData \<Rightarrow> jsobject \<times> MergeConflict list \<Rightarrow> jsobject \<times> MergeConflict list" where
  "merge_h_index ex en st =
     (case st of (mrg, cfl) \<Rightarrow>
        (case e_h_index en of
           None \<Rightarrow> (mrg, cfl)
         | Some n \<Rightarrow>
             (if r_h_index ex \<noteq> None \<and> r_h_index ex \<noteq> Some n then
                (let useNew = (the (r_h_index ex) < n);
                     cfl' = cfl @ [\<lparr> mc_field = ''h_index'',
                                      existing_value = js_number (r_h_index ex),
                                      new_value = JNum (of_int n),
                                      resolution = (if useNew then use_new else keep_existing) \<rparr>]
                 in (if useNew then mrg(''h_index'' \<mapsto> JNum (of_int n)) else mrg, cfl'))
              else if r_h_index ex = None then (mrg(''h_index'' \<mapsto> JNum (of_int n)), cfl)
              else (mrg, cfl))))"

text \<open>
  The citation count: the source compares with \<open>existing.citations_total\<close> without asking
  whether it is there. \<open>undefined !== n\<close> is true and \<open>n > undefined\<close> is false.
\<close>

definition merge_citations ::
  "Researcher \<Rightarrow> EnrichedData \<Rightarrow> jsobject \<times> MergeConflict list \<Rightarrow> jsobject \<times> MergeConflict list" where
  "merge_citations ex en st =
     (case st of (mrg, cfl) \<Rightarrow>
        (case e_citations_total en of
           None \<Rightarrow> (mrg, cfl)
         | Some n \<Rightarrow>
             (if r_citations_total ex \<noteq> Some n then
                (let useNew = (case r_citations_total ex of None \<Rightarrow> False | Some m \<Rightarrow> m < n);
                     cfl' = cfl @ [\<lparr> mc_field = ''citations_total'',
                                      existing_value = js_number (r_citations_total ex),
                                      new_value = JNum (of_int n),
                                      resolution = (if useNew then use_new else keep_existing) \<rparr>]
                 in (if useNew then mrg(''citations_total'' \<mapsto> JNum (of_int n)) else mrg, cfl'))
              else (mrg, cfl))))"

text \<open>\<open>Array.from(new Set(xs))\<close>: the elements of \<open>xs\<close> in order of first occurrence.\<close>

fun set_add_all :: "string list \<Rightarrow> string list \<Rightarrow> string list" where
  "set_add_all seen [] = seen"
| "set_add_all seen (x # xs) = set_add_all (if x \<in> set seen then seen else seen @ [x]) xs"

definition merge_research_areas ::
  "Researcher \<Rightarrow> EnrichedData \<Rightarrow> jsobject \<times> MergeConflict list \<Rightarrow> jsobject \<times> MergeConflict list" where
  "merge_research_areas ex en st =
     (case st of (mrg, cfl) \<Rightarrow>
        (case e_research_areas en of
           None \<Rightarrow> (mrg, cfl)
         | Some newAreas \<Rightarrow>
             (if 0 < length newAreas then
                (let existingAreas = (case r_research_areas ex of None \<Rightarrow> [] | Some as \<Rightarrow> as);
                     mergedAreas = set_add_all [] (existingAreas @ newAreas);
                     cfl' = (if 0 < length existingAreas
                             then cfl @ [\<lparr> mc_field = ''research_areas'',
                                              existing_value = js_strings existingAreas,
                                              new_value = js_strings newAreas,
                                              resolution = merge \<rparr>]
                             else cfl)
                 in (mrg(''research_areas'' \<mapsto> js_strings mergedAreas), cfl'))
              else (mrg, cfl))))"

text \<open>
  The descriptive fields: \<open>if (enriched.f && !existing.f) merged.f = enriched.f\<close>. Nothing is
  pushed to \<open>conflicts\<close>.
\<close>

definition adopt_if_missing ::
  "string \<Rightarrow> string option \<Rightarrow> string option \<Rightarrow> jsobject \<Rightarrow> jsobject" where
  "adopt_if_missing key new old mrg =
     (if truthy_str new \<and> \<not> truthy_str old then mrg(key \<mapsto> JStr (the new)) else mrg)"

definition merge_descriptive :: "Researcher \<Rightarrow> EnrichedData \<Rightarrow> jsobject \<Rightarrow> jsobject" where
  "merge_descriptive ex en mrg =
     (let mrg = adopt_if_missing ''bio'' (e_bio en) (r_bio ex) mrg;
          mrg = adopt_if_missing ''google_scholar_url'' (e_google_scholar_url en)
                  (r_google_scholar_url ex) mrg;
          mrg = adopt_if_missing ''dblp_url'' (e_dblp_url en) (r_dblp_url ex) mrg;
          mrg = adopt_if_missing ''semantic_scholar_id'' (e_semantic_scholar_id en)
                  (r_semantic_scholar_id ex) mrg;
          mrg = adopt_if_missing ''orcid'' (e_orcid en) (r_orcid ex) mrg
      in mrg)"

definition merge_confidence :: "jsobject \<Rightarrow> PublicationInput list \<Rightarrow> rat" where
  "merge_confidence mrg pubs =
     (let confidence = 1 / 2;
          confidence = (if truthy_prop mrg ''h_index'' then fadd confidence (fl (1 / 10))
                        else confidence);
          confidence = (if truthy_prop mrg ''citations_total'' then fadd confidence (fl (1 / 10))
                        else confidence);
          confidence = (if truthy_prop mrg ''research_areas'' then fadd confidence (fl (1 / 10))
                        else confidence);
          confidence = (if 0 < length pubs then fadd confidence (fl (2 / 10)) else confidence)
      in min confidence 1)"

text \<open>
  \<open>mergeEnrichmentData\<close>; \<open>now\<close> is what \<open>new Date().toISOString()\<close> returns at the call.
\<close>

definition mergeEnrichmentData :: "string \<Rightarrow> StepE3Input \<Rightarrow> StepE3Output" where
  "mergeEnrichmentData now input =
     (let ex = existing input; en = enriched input;
          publications_to_add = (case e_publications en of None \<Rightarrow> [] | Some ps \<Rightarrow> ps);
          st = (Map.empty, []);
          st = merge_h_index ex en st;
          st = merge_citations ex en st;
          st = merge_research_areas ex en st;
          mrg = merge_descriptive ex en (fst st);
          mrg = mrg(''enrichment_status'' \<mapsto> JStr ''complete'');
          mrg = mrg(''last_verified'' \<mapsto> JStr now)
      in \<lparr> merged = mrg, publications_to_add = publications_to_add, conflicts = snd st,
           confidence = merge_confidence mrg publications_to_add \<rparr>)"

subsection \<open>The merge rules as the specification words them\<close>

text \<open>
  A scalar quality metric: nothing without a new value; the new value adopted with no
  conflict when there is no existing one; otherwise the larger of the two, with one conflict
  when they differ. The pair is the entry of the partial update and the conflicts emitted.
\<close>

definition metric_rule ::
  "string \<Rightarrow> int option \<Rightarrow> int option \<Rightarrow> jsvalue option \<times> MergeConflict list" where
  "metric_rule name old new =
     (case new of
        None \<Rightarrow> (None, [])
      | Some n \<Rightarrow>
          (case old of
             None \<Rightarrow> (Some (JNum (of_int n)), [])
           | Some m \<Rightarrow>
               if m = n then (None, [])
               else (if m < n then Some (JNum (of_int n)) else None,
                     [\<lparr> mc_field = name, existing_value = JNum (of_int m),
                        new_value = JNum (of_int n),
                        resolution = (if m < n then use_new else keep_existing) \<rparr>])))"

text \<open>The value of a metric once the partial update is applied to the existing record.\<close>

definition metric_after :: "int option \<Rightarrow> jsvalue option \<Rightarrow> jsvalue" where
  "metric_after old upd = (case upd of None \<Rightarrow> js_number old | Some v \<Rightarrow> v)"

definition conflicts_on :: "string list \<Rightarrow> MergeConflict list \<Rightarrow> MergeConflict list" where
  "conflicts_on names cs = filter (\<lambda>c. mc_field c \<in> set names) cs"

definition descriptive_fields :: "string list" where
  "descriptive_fields = [''bio'', ''google_scholar_url'', ''dblp_url'', ''semantic_scholar_id'', ''orcid'']"

text \<open>
  A descriptive field: the new value enters the partial update when it is populated and
  the existing field is empty, and the field is left out of the update otherwise.
\<close>

definition descriptive_rule :: "string option \<Rightarrow> string option \<Rightarrow> jsvalue option" where
  "descriptive_rule old new =
     (if truthy_str new \<and> \<not> truthy_str old then Some (JStr (the new)) else None)"

text \<open>
  The confidence: 0.5, plus 0.1 for an h-index, 0.1 for a citation count, 0.1 for research
  areas and 0.2 for at least one proposed publication, capped at 1.0.
\<close>

definition confidence_score :: "bool \<Rightarrow> bool \<Rightarrow> bool \<Rightarrow> bool \<Rightarrow> rat" where
  "confidence_score h c a p =
     min (bonus p (2 / 10) (bonus a (1 / 10) (bonus c (1 / 10) (bonus h (1 / 10) (1 / 2))))) 1"

definition present_nonzero :: "jsvalue option \<Rightarrow> bool" where
  "present_nonzero v = (case v of Some (JNum n) \<Rightarrow> n \<noteq> 0 | _ \<Rightarrow> False)"

section \<open>Stage inputs and outputs (pipeline/types.ts)\<close>

record Selectors =
  sel_card :: "string option"
  sel_name :: "string option"
  sel_title :: "string option"
  sel_email :: "string option"
  sel_phone :: "string option"
  sel_office :: "string option"
  sel_website :: "string option"
  sel_photo :: "string option"
  sel_research_areas :: "string option"

record ScrollConfig =
  max_scrolls :: "int option"
  scroll_delay_ms :: "int option"

record ScrapeConfig =
  cfg_selectors :: "Selectors option"
  load_more_selector :: "string option"
  scroll_to_load :: "bool option"
  cfg_scroll_config :: "ScrollConfig option"
  pagination_type :: "string option"
  filter_selector :: "string option"
  filter_value :: "string option"
  wait_after_load_ms :: "int option"

record Directory =
  dir_id :: int
  dir_university :: string
  dir_department :: string
  directory_url :: string
  profile_url_pattern :: "string option"
  dir_scrape_method :: string
  scrape_config :: "ScrapeConfig option"
  is_active :: bool
  last_scraped :: "int option"
  records_last_scrape :: int

record LoadMoreConfig =
  lm_selector :: string
  max_clicks :: int
  wait_between_clicks_ms :: int

record Step1Output =
  s1_directory :: Directory
  s1_url :: string
  s1_scrape_method :: string
  s1_selectors :: Selectors
  s1_load_more_config :: "LoadMoreConfig option"
  s1_scroll_config :: "ScrollConfig option"
  use_step0_html :: bool

record Step2Output =
  s2_html :: string
  s2_links :: "string list"
  fetch_time_ms :: int
  from_cache :: bool

record Step3Output =
  final_html :: string
  clicks_performed :: int
  scroll_distance :: int
  screenshots :: "string list"
  dynamic_content_found :: bool


record RawCard =
  card_index :: nat
  outer_html :: string
  name_text :: "string option"
  title_text :: "string option"
  email_text :: "string option"
  phone_text :: "string option"
  office_text :: "string option"
  website_url :: "string option"
  card_photo_url :: "string option"
  research_areas_text :: "string option"
  profile_link :: "string option"

record ExtractionStats =
  total_cards :: nat
  cards_with_name :: nat
  cards_with_email :: nat
  cards_with_title :: nat
  cards_with_website :: nat

record Step4Output =
  raw_cards :: "RawCard list"
  extraction_stats :: ExtractionStats


record ParseError =
  pe_card_index :: nat
  pe_field :: string
  pe_error :: string
  pe_raw_value :: "string option"

record NormalizationStats =
  total_parsed :: nat
  emails_normalized :: nat
  names_split :: nat
  titles_standardized :: nat

record Step5Output =
  s5_researchers :: "ParsedResearcher list"
  parse_errors :: "ParseError list"
  normalization_stats :: NormalizationStats


record JobStats =
  records_created :: nat
  records_updated :: nat
  records_skipped :: nat

record Step7Output =
  inserted_ids :: "int list"
  updated_ids :: "int list"
  job_stats :: JobStats


record QueuePosition =
  qp_researcher_id :: int
  qp_position :: int

record Step8Output =
  queued_count :: nat
  already_queued :: nat
  queue_positions :: "QueuePosition list"



text \<open>What a stage can return: the value that \<open>recordStepEnd\<close> receives as \<open>output\<close>.\<close>

datatype step_output =
    Out1 Step1Output
  | Out2 Step2Output
  | Out3 Step3Output
  | Out4 Step4Output
  | Out5 Step5Output
  | Out6 Step6Output
  | Out7 Step7Output
  | Out8 Step8Output

section \<open>The store (db/repositories) and the debug files\<close>

text \<open>
  The tables the pipeline touches, each as the list of its rows, with the sequence counter
  of the two tables whose generated ids the pipeline reads. Times are seconds; the run is
  taken to be instantaneous, \<open>now\<close> being the one instant at which it happens. The
  schema's uniqueness constraints and foreign keys are modelled on every statement the
  pipeline issues (\<open>connection.ts\<close> sets \<open>foreign_keys = ON\<close>): an INSERT that violates one
  raises and leaves the table as it was. The triggers only maintain \<open>updated_at\<close>, which is
  not modelled.
\<close>

record JobRow =
  job_id :: string
  job_directory_id :: int
  scrape_type :: string
  started_at :: int
  completed_at :: "int option"
  job_duration_seconds :: "int option"
  job_status :: string
  current_step :: "string option"
  job_records_found :: int
  job_records_created :: int
  job_records_updated :: int
  job_records_skipped :: int
  error_message :: "string option"

record StepOutputRow =
  so_job_id :: string
  so_step_name :: string
  so_input_data :: jsvalue
  so_output_data :: "step_output option"
  so_duration_ms :: int
  so_success :: bool
  so_error_message :: "string option"

record QueueRow =
  q_id :: int
  q_researcher_id :: int
  q_priority :: int
  q_attempts :: int
  q_status :: string
  q_created_at :: int

text \<open>
  The persistent researcher store and the enrichment queue, and the database they are
  tables of.
\<close>

record Store =
  tbl_researchers :: "ResearcherRow list"
  seq_researchers :: int
  tbl_queue :: "QueueRow list"
  seq_queue :: int

record Db =
  store :: Store
  tbl_directories :: "Directory list"
  tbl_jobs :: "JobRow list"
  tbl_step_outputs :: "StepOutputRow list"


subsection \<open>researchersRepository\<close>

definition findById :: "ResearcherRow list \<Rightarrow> int \<Rightarrow> Researcher option" where
  "findById rows i = map_option rowToResearcher (find (\<lambda>row. row_id row = i) rows)"










subsection \<open>jobsRepository and directoriesRepository\<close>

text \<open>
  \<open>jobsRepository.create\<close> inserts the job row under a \<open>uuidv4()\<close> of its own, here
  \<open>uuid\<close>. \<open>job_id\<close> is UNIQUE and \<open>directory_id\<close> references \<open>directories(id)\<close>.
\<close>

definition job_ids :: "Db \<Rightarrow> string list" where
  "job_ids db = map job_id (tbl_jobs db)"


definition update_jobs :: "string \<Rightarrow> (JobRow \<Rightarrow> JobRow) \<Rightarrow> Db \<Rightarrow> Db" where
  "update_jobs jid f db =
     db\<lparr> tbl_jobs := map (\<lambda>row. if job_id row = jid then f row else row) (tbl_jobs db) \<rparr>"

definition updateStatus :: "int \<Rightarrow> string \<Rightarrow> string \<Rightarrow> string option \<Rightarrow> Db \<Rightarrow> Db" where
  "updateStatus now jid status errorMessage db =
     (if status = ''success'' \<or> status = ''failed'' \<or> status = ''cancelled''
      then update_jobs jid
             (\<lambda>row. row\<lparr> job_status := status, completed_at := Some now,
                           job_duration_seconds := Some (now - started_at row),
                           error_message := or_undefined errorMessage \<rparr>) db
      else update_jobs jid
             (\<lambda>row. row\<lparr> job_status := status, error_message := or_undefined errorMessage \<rparr>) db)"

definition updateCurrentStep :: "string \<Rightarrow> string \<Rightarrow> Db \<Rightarrow> Db" where
  "updateCurrentStep jid step db = update_jobs jid (\<lambda>row. row\<lparr> current_step := Some step \<rparr>) db"

definition updateStats :: "string \<Rightarrow> nat \<Rightarrow> nat \<Rightarrow> nat \<Rightarrow> nat \<Rightarrow> Db \<Rightarrow> Db" where
  "updateStats jid found created updated skipped db =
     update_jobs jid
       (\<lambda>row. row\<lparr> job_records_found := int found, job_records_created := int created,
                     job_records_updated := int updated, job_records_skipped := int skipped \<rparr>) db"

text \<open>
  \<open>storeStepOutput\<close>: the INSERT into \<open>step_outputs\<close>, whose \<open>job_id\<close> references
  \<open>scrape_jobs(job_id)\<close>. Without a job row of that id the statement raises.
\<close>

definition storeStepOutput ::
  "string \<Rightarrow> string \<Rightarrow> jsvalue \<Rightarrow> step_output option \<Rightarrow> int \<Rightarrow> bool \<Rightarrow> string option \<Rightarrow> Db \<Rightarrow>
   string + Db" where
  "storeStepOutput jid stepName inp out durationMs ok errorMessage db =
     (if jid \<in> set (job_ids db)
      then Inr (db\<lparr> tbl_step_outputs := tbl_step_outputs db @
                  [\<lparr> so_job_id = jid, so_step_name = stepName, so_input_data = inp,
                     so_output_data = out, so_duration_ms = durationMs, so_success = ok,
                     so_error_message = or_undefined errorMessage \<rparr>] \<rparr>)
      else Inl ''FOREIGN KEY constraint failed'')"


definition updateLastScraped :: "int \<Rightarrow> int \<Rightarrow> nat \<Rightarrow> Db \<Rightarrow> Db" where
  "updateLastScraped now i recordsCount db =
     db\<lparr> tbl_directories :=
           map (\<lambda>d. if dir_id d = i
                     then d\<lparr> last_scraped := Some now, records_last_scrape := int recordsCount \<rparr>
                     else d) (tbl_directories db) \<rparr>"

subsection \<open>enrichmentQueueRepository\<close>




section \<open>Step recorder (debug/step-recorder.ts)\<close>

record StepRecording =
  sr_stepName :: string
  sr_startTime :: string
  sr_endTime :: "string option"
  sr_durationMs :: "int option"
  sr_input :: jsvalue
  sr_output :: "step_output option"
  sr_error :: "string option"
  sr_success :: bool

record JobRecording =
  jr_jobId :: string
  jr_directoryId :: "int option"
  jr_startTime :: string
  jr_endTime :: "string option"
  jr_steps :: "StepRecording list"

text \<open>
  The recorder. \<open>recordStepEnd\<close> and \<open>recordStepError\<close> push the object \<open>currentStep\<close>
  itself onto \<open>steps\<close>; when the database insert that follows raises, the object stays
  the current step, and what a later call writes into it shows in the entries already
  pushed. \<open>aliased\<close> is the number of trailing entries of \<open>steps\<close> that are this object.
\<close>

record StepRecorder =
  rec_jobId :: string
  debugDir :: string
  recording :: JobRecording
  currentStep :: "StepRecording option"
  aliased :: nat

definition write_through :: "nat \<Rightarrow> StepRecording \<Rightarrow> StepRecording list \<Rightarrow> StepRecording list" where
  "write_through k cur steps =
     take (length steps - k) steps @ map (\<lambda>x. cur) (drop (length steps - k) steps)"

text \<open>
  A debug file holds what was serialised into it: the JSON value of an input, the output
  of a stage, an error with the input it came with, the job summary, or plain text.
\<close>

datatype file_content =
    FInput jsvalue
  | FOutput step_output
  | FError string jsvalue
  | FSummary JobRecording
  | FText string

text \<open>
  The state a run acts on: the store, the debug files by path, and the recorder object of
  the run. \<open>isoNow\<close> is \<open>new Date().toISOString()\<close> at the instant of the run.
\<close>

record State =
  db :: Db
  files :: "string \<rightharpoonup> file_content"
  recorder :: StepRecorder

definition path_join :: "string \<Rightarrow> string \<Rightarrow> string" where
  "path_join dir name = dir @ ''/'' @ name"

definition jobs_dir :: string where
  "jobs_dir = ''debug/jobs''"


text \<open>
  The three recording methods return the exception they raise, if any, and the state they
  leave. Each writes its file before it calls \<open>storeStepOutput\<close>, so the file is there
  also when the insert raises.
\<close>

definition recordStepStart :: "string \<Rightarrow> string \<Rightarrow> jsvalue \<Rightarrow> State \<Rightarrow> string option \<times> State" where
  "recordStepStart isoNow stepName inp s =
     (let r = recorder s;
          s = s\<lparr> recorder := r\<lparr> currentStep :=
                     Some \<lparr> sr_stepName = stepName, sr_startTime = isoNow, sr_endTime = None,
                            sr_durationMs = None, sr_input = inp, sr_output = None,
                            sr_error = None, sr_success = False \<rparr>,
                   aliased := 0 \<rparr>,
                files := (files s)(path_join (debugDir r) (stepName @ ''_input.json'') \<mapsto> FInput inp) \<rparr>
      in case storeStepOutput (rec_jobId r) stepName inp None 0 False None (db s) of
           Inl err \<Rightarrow> (Some err, s)
         | Inr d \<Rightarrow> (None, s\<lparr> db := d \<rparr>))"

definition recordStepEnd ::
  "string \<Rightarrow> string \<Rightarrow> step_output \<Rightarrow> int \<Rightarrow> State \<Rightarrow> string option \<times> State" where
  "recordStepEnd isoNow stepName out durationMs s =
     (let r = recorder s
      in case currentStep r of
           None \<Rightarrow> (None, s)
         | Some cur \<Rightarrow>
             if sr_stepName cur = stepName then
               (let cur' = cur\<lparr> sr_endTime := Some isoNow, sr_durationMs := Some durationMs,
                               sr_output := Some out, sr_success := True \<rparr>;
                    r' = r\<lparr> recording := (recording r)
                              \<lparr> jr_steps := write_through (aliased r) cur' (jr_steps (recording r))
                                            @ [cur'] \<rparr>,
                            currentStep := Some cur', aliased := aliased r + 1 \<rparr>;
                    s = s\<lparr> recorder := r',
                          files := (files s)(path_join (debugDir r) (stepName @ ''_output.json'')
                                               \<mapsto> FOutput out) \<rparr>
                in case storeStepOutput (rec_jobId r) stepName (sr_input cur') (Some out)
                          durationMs True None (db s) of
                     Inl err \<Rightarrow> (Some err, s)
                   | Inr d \<Rightarrow>
                       (None, s\<lparr> db := d, recorder := r'\<lparr> currentStep := None, aliased := 0 \<rparr> \<rparr>))
             else (None, s))"

definition recordStepError ::
  "string \<Rightarrow> string \<Rightarrow> string \<Rightarrow> int \<Rightarrow> State \<Rightarrow> string option \<times> State" where
  "recordStepError isoNow stepName message durationMs s =
     (let r = recorder s
      in case currentStep r of
           None \<Rightarrow> (None, s)
         | Some cur \<Rightarrow>
             if sr_stepName cur = stepName then
               (let cur' = cur\<lparr> sr_endTime := Some isoNow, sr_durationMs := Some durationMs,
                               sr_error := Some message, sr_success := False \<rparr>;
                    r' = r\<lparr> recording := (recording r)
                              \<lparr> jr_steps := write_through (aliased r) cur' (jr_steps (recording r))
                                            @ [cur'] \<rparr>,
                            currentStep := Some cur', aliased := aliased r + 1 \<rparr>;
                    s = s\<lparr> recorder := r',
                          files := (files s)(path_join (debugDir r) (stepName @ ''_error.json'')
                                               \<mapsto> FError message (sr_input cur')) \<rparr>
                in case storeStepOutput (rec_jobId r) stepName (sr_input cur') None
                          durationMs False (Some message) (db s) of
                     Inl err \<Rightarrow> (Some err, s)
                   | Inr d \<Rightarrow>
                       (None, s\<lparr> db := d, recorder := r'\<lparr> currentStep := None, aliased := 0 \<rparr> \<rparr>))
             else (None, s))"



definition loadStepOutput :: "(string \<rightharpoonup> file_content) \<Rightarrow> string \<Rightarrow> string \<Rightarrow> file_content option" where
  "loadStepOutput fs jobId stepName =
     fs (path_join (path_join jobs_dir jobId) (stepName @ ''_output.json''))"

section \<open>Step 4: extract cards (pipeline/steps/04-extract-cards.ts)\<close>

text \<open>
  The step reads the page with the HTML library cheerio, whose operations are parameters
  here, over the elements of a document: \<open>ch_select html sel\<close> is \<open>$(sel)\<close> after
  \<open>cheerio.load(html)\<close>, \<open>ch_find el sel\<close> is \<open>$(el).find(sel)\<close>, and \<open>ch_text\<close>,
  \<open>ch_attr\<close> and \<open>ch_html\<close> are \<open>.text()\<close>, \<open>.attr(name)\<close> and \<open>$.html(el)\<close>. A selector
  the library cannot parse makes it throw (\<open>Inl\<close>). \<open>String.prototype.trim\<close> and
  \<open>extractEmail\<close>, \<open>extractPhone\<close> and \<open>extractUrl\<close> of \<open>parsers/normalizer.js\<close>, which
  match regular expressions, are parameters as well.
\<close>


datatype node = Element string "(string \<times> string) list" "node list" | TextNode string

record Cheerio =
  ch_select :: "string \<Rightarrow> string \<Rightarrow> string + node list"
  ch_find :: "node \<Rightarrow> string \<Rightarrow> string + node list"
  ch_text :: "node list \<Rightarrow> string"
  ch_attr :: "node list \<Rightarrow> string \<Rightarrow> string option"
  ch_html :: "node \<Rightarrow> string"
  js_trim :: "string \<Rightarrow> string"
  extractEmail :: "string \<Rightarrow> string option"
  extractPhone :: "string \<Rightarrow> string option"
  extractUrl :: "string \<Rightarrow> string option"






















section \<open>Step 5: parse and normalize (pipeline/steps/05-parse-normalize.ts)\<close>

text \<open>
  The parsers of \<open>parsers/researcher-parser.js\<close> and \<open>parsers/normalizer.js\<close>, which
  work by regular expressions, are the parameters of this step; each may throw (\<open>Inl\<close>),
  and \<open>parseEmail\<close>, \<open>parsePhone\<close> and \<open>parseWebsite\<close> may return \<open>null\<close>.
\<close>

record ParsedName =
  pn_first_name :: string
  pn_last_name :: string
  pn_full_name :: string

record Parsers =
  cleanHtml :: "string \<Rightarrow> string + string"
  normalizeWhitespace :: "string \<Rightarrow> string + string"
  parseName :: "string \<Rightarrow> string + ParsedName"
  parseTitle :: "string \<Rightarrow> string + string"
  parseEmail :: "string \<Rightarrow> string + string option"
  parsePhone :: "string \<Rightarrow> string + string option"
  parseWebsite :: "string \<Rightarrow> string + string option"
  parseResearchAreas :: "string \<Rightarrow> string + string list"












section \<open>Step 7: persist (pipeline/steps/07-persist.ts)\<close>





section \<open>Step 8: queue for enrichment (pipeline/steps/08-queue-enrich.ts)\<close>




section \<open>The pipeline runner (pipeline/runner.ts)\<close>

datatype run_mode = full | test

record PipelineOptions =
  mode :: run_mode
  debug :: "bool option"
  stopAfterStep :: "string option"
  dryRun :: "bool option"

record PipelineContext =
  ctx_jobId :: string
  ctx_directoryId :: int
  ctx_directory :: Directory
  ctx_options :: PipelineOptions

text \<open>
  What the runner takes from outside: \<open>String.prototype.toLowerCase\<close>, the URL parser, the
  order in which the engine enumerates the rows of \<open>researchers\<close> for the lookups of step 6
  (their statements have no ORDER BY), the parsers of step 5, the HTML library of step 4, the
  two identifiers that \<open>uuidv4()\<close> returns (first to \<open>runPipeline\<close>, then to
  \<open>jobsRepository.create\<close>), and the instant of the run, in seconds and as an ISO string.
  The logger only writes log lines and is left out.
\<close>

record Env =
  env_toLowerCase :: "string \<Rightarrow> string"
  env_hostname :: "string \<Rightarrow> string option"
  env_scan :: "ResearcherRow list \<Rightarrow> ResearcherRow list"
  env_parsers :: Parsers
  env_cheerio :: Cheerio
  env_uuid_run :: string
  env_uuid_job :: string
  env_now :: int
  env_iso :: string

text \<open>
  The \<open>catch\<close> block of \<open>runStepWithTracking\<close>: it records the error and throws it again.
  An exception that the recorder raises there leaves the block in its place.
\<close>

definition catch_step :: "string \<Rightarrow> string \<Rightarrow> string \<Rightarrow> State \<Rightarrow> (string + 'a) \<times> State" where
  "catch_step isoNow stepName err s =
     (case recordStepError isoNow stepName err 0 s of
        (Some err', s) \<Rightarrow> (Inl err', s)
      | (None, s) \<Rightarrow> (Inl err, s))"

text \<open>
  \<open>runStepWithTracking\<close>. The stage \<open>stepFn\<close> is a closure: it reads and writes the store
  and returns a value or throws. The input handed to the recorder is the literal \<open>{}\<close>.
  \<open>recordStepStart\<close>, the stage and \<open>recordStepEnd\<close> are inside the \<open>try\<close>; the stage
  is called only when \<open>recordStepStart\<close> has returned.
\<close>

definition runStepWithTracking ::
  "Env \<Rightarrow> ('a \<Rightarrow> step_output) \<Rightarrow> PipelineContext \<Rightarrow> string \<Rightarrow> (Db \<Rightarrow> (string + 'a) \<times> Db) \<Rightarrow>
   State \<Rightarrow> (string + 'a) \<times> State" where
  "runStepWithTracking env wrap ctx stepName stepFn s =
     (let s = s\<lparr> db := updateCurrentStep (ctx_jobId ctx) stepName (db s) \<rparr>
      in case recordStepStart (env_iso env) stepName (JObj []) s of
           (Some err, s) \<Rightarrow> catch_step (env_iso env) stepName err s
         | (None, s) \<Rightarrow>
             (case stepFn (db s) of
                (Inl err, d) \<Rightarrow> catch_step (env_iso env) stepName err (s\<lparr> db := d \<rparr>)
              | (Inr result, d) \<Rightarrow>
                  (case recordStepEnd (env_iso env) stepName (wrap result) 0 (s\<lparr> db := d \<rparr>) of
                     (Some err, s) \<Rightarrow> catch_step (env_iso env) stepName err s
                   | (None, s) \<Rightarrow> (Inr result, s))))"


















subsection \<open>The effect of a run on the store\<close>






subsection \<open>Fatal errors and what a run reports, as the specification words them\<close>

text \<open>
  The recorder's job has its row: the condition under which \<open>storeStepOutput\<close> does not
  raise.
\<close>

definition job_known :: "State \<Rightarrow> bool" where
  "job_known s = (rec_jobId (recorder s) \<in> set (job_ids (db s)))"







section \<open>Example records\<close>

definition url_host :: "string \<Rightarrow> string option" where
  "url_host s = (if starts_with s ''https://'' then Some (takeWhile (\<lambda>c. c \<noteq> CHR ''/'') (drop 8 s)) else None)"

definition jane :: ParsedResearcher where
  "jane = \<lparr> first_name = ''Jane'', last_name = ''Doe'', full_name = ''Jane Doe'',
            university = ''X University'', department = ''CS'', title = Some ''Professor'',
            email = Some ''jane@x.edu'', phone = None, office = None, website = None,
            photo_url = None, research_areas = None \<rparr>"

definition jane_row :: ResearcherRow where
  "jane_row = \<lparr> row_id = 1, row_first_name = ''Jane'', row_last_name = ''Doe'',
       row_full_name = ''Jane Doe'', row_university = Some ''X University'',
       row_department = Some ''CS'', row_title = Some ''Professor'',
       row_email = Some ''jane@x.edu'', row_phone = None, row_office = None, row_website = None,
       row_photo_url = None, row_google_scholar_url = None, row_dblp_url = None,
       row_semantic_scholar_id = None, row_orcid = None, row_h_index = None,
       row_citations_total = 0, row_publications_count = 0, row_research_areas = None,
       row_bio = None, row_source_directory_id = Some 1, row_enrichment_status = pending,
       row_enrichment_error = None, row_last_verified = None \<rparr>"

definition jane_assoc :: ParsedResearcher where
  "jane_assoc = jane\<lparr> title := Some ''Associate Professor'' \<rparr>"

definition jane_no_email :: ParsedResearcher where
  "jane_no_email = jane\<lparr> email := None \<rparr>"

definition jane_other_email :: ParsedResearcher where
  "jane_other_email = jane\<lparr> email := Some ''j.doe@x.edu'' \<rparr>"

text \<open>The record and the bundle that the tests of the merge step start from.\<close>

definition john :: Researcher where
  "john = \<lparr> r_id = 1, r_first_name = ''John'', r_last_name = ''Doe'', r_full_name = ''John Doe'',
       r_university = None, r_department = None, r_title = None, r_email = None, r_phone = None,
       r_office = None, r_website = None, r_photo_url = None, r_google_scholar_url = None,
       r_dblp_url = None, r_semantic_scholar_id = None, r_orcid = None, r_h_index = None,
       r_citations_total = None, r_publications_count = 0, r_research_areas = None,
       r_bio = None, r_source_directory_id = None, r_enrichment_status = pending,
       r_enrichment_error = None, r_last_verified = None \<rparr>"

definition no_data :: EnrichedData where
  "no_data = \<lparr> e_publications = None, e_h_index = None, e_citations_total = None,
       e_research_areas = None, e_bio = None, e_google_scholar_url = None, e_dblp_url = None,
       e_semantic_scholar_id = None, e_orcid = None \<rparr>"

definition merge_input_metrics :: StepE3Input where
  "merge_input_metrics =
     \<lparr> existing = john\<lparr> r_h_index := Some 25, r_citations_total := Some 5000 \<rparr>,
       enriched = no_data\<lparr> e_h_index := Some 30, e_citations_total := Some 6000 \<rparr> \<rparr>"

definition merge_input_no_citations :: StepE3Input where
  "merge_input_no_citations =
     \<lparr> existing = john, enriched = no_data\<lparr> e_citations_total := Some 5000 \<rparr> \<rparr>"

definition merge_input_bio :: StepE3Input where
  "merge_input_bio =
     \<lparr> existing = john\<lparr> r_bio := Some ''A'' \<rparr>, enriched = no_data\<lparr> e_bio := Some ''B'' \<rparr> \<rparr>"

definition merge_input_zero_h :: StepE3Input where
  "merge_input_zero_h = \<lparr> existing = john, enriched = no_data\<lparr> e_h_index := Some 0 \<rparr> \<rparr>"

definition merge_input_kept_h :: StepE3Input where
  "merge_input_kept_h =
     \<lparr> existing = john\<lparr> r_h_index := Some 30 \<rparr>, enriched = no_data\<lparr> e_h_index := Some 25 \<rparr> \<rparr>"

definition timestamp :: string where
  "timestamp = ''2026-01-01T00:00:00.000Z''"

















lemma pow2_pos: "0 < pow2 e"
  by (simp add: pow2_def)

lemma pow2_nonneg_exp: "0 \<le> e \<Longrightarrow> pow2 e = of_int (2 ^ nat e)"
  by (simp add: pow2_def)

lemma pow2_neg_exp: "e < 0 \<Longrightarrow> pow2 e = 1 / of_int (2 ^ nat (- e))"
  by (simp add: pow2_def)

lemma bitlen_eqI:
  assumes "2 ^ k \<le> n" "n < 2 ^ (Suc k)"
  shows "bitlen n = int k + 1"
proof (rule antisym)
  show "bitlen n \<le> int k + 1"
    using assms(2) by (simp add: bitlen_le_iff_power nat_add_distrib)
  show "int k + 1 \<le> bitlen n"
    using assms(1) by (simp add: bitlen_ge_iff_power nat_add_distrib)
qed

lemma ilog2_window:
  assumes lo: "pow2 e \<le> x" and hi: "x < pow2 (e + 1)"
  shows "ilog2 x = e"
proof (cases "0 \<le> e")
  case True
  define k where "k = nat e"
  have e: "e = int k" using True by (simp add: k_def)
  have lo': "of_int (2 ^ k) \<le> x" using lo by (simp add: pow2_def e)
  have hi': "x < of_int (2 ^ Suc k)" using hi by (simp add: pow2_def e nat_add_distrib)
  have "(1::rat) \<le> of_int (2 ^ k)" by simp
  then have x1: "1 \<le> x" using lo' by linarith
  have a: "2 ^ k \<le> \<lfloor>x\<rfloor>" using lo' by (simp only: le_floor_iff)
  have b: "\<lfloor>x\<rfloor> < 2 ^ Suc k" using hi' by (simp only: floor_less_iff)
  have "bitlen \<lfloor>x\<rfloor> = int k + 1" by (rule bitlen_eqI[OF a b])
  then show ?thesis using x1 by (simp add: ilog2_def e)
next
  case False
  define m where "m = nat (- e) - 1"
  have e: "e = - int (Suc m)" using False by (simp add: m_def)
  have xpos: "0 < x" using lo pow2_pos[of e] by linarith
  have lo': "1 / (2 ^ Suc m) \<le> x" using lo by (simp add: pow2_def e nat_add_distrib)
  have hi': "x < 1 / (2 ^ m)" using hi by (cases "m = 0") (simp_all add: pow2_def e)
  have "(1::rat) / 2 ^ m \<le> 1" by simp
  then have x1: "\<not> 1 \<le> x" using hi' by linarith
  have u: "1 / x \<le> of_int (2 ^ Suc m)"
    using lo' xpos by (simp add: field_simps)
  have l: "of_int (2 ^ m) < 1 / x"
    using hi' xpos by (simp add: field_simps)
  have a: "\<lceil>1 / x\<rceil> \<le> 2 ^ Suc m" using u by (simp only: ceiling_le_iff)
  have b: "2 ^ m < \<lceil>1 / x\<rceil>" using l by (simp only: less_ceiling_iff)
  have "bitlen (\<lceil>1 / x\<rceil> - 1) = int m + 1"
    by (rule bitlen_eqI) (use a b in linarith)+
  then show ?thesis using x1 by (simp add: ilog2_def e)
qed

lemma fl_window:
  assumes lo: "pow2 e \<le> x" and hi: "x < pow2 (e + 1)"
  shows "fl x = of_int (round_half_even (x / pow2 (e - 52))) * pow2 (e - 52)"
proof -
  have xpos: "0 < x" using lo pow2_pos[of e] by linarith
  then show ?thesis
    by (simp add: fl_def Let_def ilog2_window[OF lo hi])
qed

lemma floor_numeral_div: "\<lfloor>(numeral a :: rat) / numeral b\<rfloor> = numeral a div numeral b"
  using floor_divide_of_int_eq[of "numeral a" "numeral b", where ?'a = rat] by simp

lemma fl_binade:
  "1 \<le> x \<Longrightarrow> x < 2 \<Longrightarrow> fl x = of_int (round_half_even (x * 4503599627370496)) / 4503599627370496"
  "1 / 2 \<le> x \<Longrightarrow> x < 1 \<Longrightarrow> fl x = of_int (round_half_even (x * 9007199254740992)) / 9007199254740992"
  "1 / 8 \<le> x \<Longrightarrow> x < 1 / 4 \<Longrightarrow> fl x = of_int (round_half_even (x * 36028797018963968)) / 36028797018963968"
  "1 / 16 \<le> x \<Longrightarrow> x < 1 / 8 \<Longrightarrow> fl x = of_int (round_half_even (x * 72057594037927936)) / 72057594037927936"
  "1 / 32 \<le> x \<Longrightarrow> x < 1 / 16 \<Longrightarrow> fl x = of_int (round_half_even (x * 144115188075855872)) / 144115188075855872"
  using fl_window[of 0 x] fl_window[of "-1" x] fl_window[of "-3" x] fl_window[of "-4" x] fl_window[of "-5" x]
  by (simp_all add: pow2_def)

lemmas fl_eval = fl_binade fadd_def fmul_def round_half_even_def Let_def floor_numeral_div

lemma fl_lits:
  "fl (1 / 10) = 3602879701896397 / 36028797018963968"
  "fl (9 / 10) = 8106479329266893 / 9007199254740992"
  by (simp_all add: fl_eval)

lemma composite_score_values:
  "composite_score NoTitleMatch False False False = 1 / 2"
  "composite_score NoTitleMatch False False True = 2476979795053773 / 4503599627370496"
  "composite_score NoTitleMatch False True False = 5404319552844595 / 9007199254740992"
  "composite_score NoTitleMatch False True True = 5854679515581645 / 9007199254740992"
  "composite_score NoTitleMatch True False False = 5854679515581645 / 9007199254740992"
  "composite_score NoTitleMatch True False True = 6305039478318695 / 9007199254740992"
  "composite_score NoTitleMatch True True False = 3 / 4"
  "composite_score NoTitleMatch True True True = 3602879701896397 / 4503599627370496"
  "composite_score SubstringTitle False False False = 5404319552844595 / 9007199254740992"
  "composite_score SubstringTitle False False True = 5854679515581645 / 9007199254740992"
  "composite_score SubstringTitle False True False = 3152519739159347 / 4503599627370496"
  "composite_score SubstringTitle False True True = 3 / 4"
  "composite_score SubstringTitle True False False = 3 / 4"
  "composite_score SubstringTitle True False True = 3602879701896397 / 4503599627370496"
  "composite_score SubstringTitle True True False = 7656119366529843 / 9007199254740992"
  "composite_score SubstringTitle True True True = 8106479329266893 / 9007199254740992"
  "composite_score ExactTitle False False False = 3152519739159347 / 4503599627370496"
  "composite_score ExactTitle False False True = 3 / 4"
  "composite_score ExactTitle False True False = 7205759403792793 / 9007199254740992"
  "composite_score ExactTitle False True True = 7656119366529843 / 9007199254740992"
  "composite_score ExactTitle True False False = 7656119366529843 / 9007199254740992"
  "composite_score ExactTitle True False True = 8106479329266893 / 9007199254740992"
  "composite_score ExactTitle True True False = 4278419646001971 / 4503599627370496"
  "composite_score ExactTitle True True True = 1"
  by (simp_all add: composite_score_def bonus_def fl_eval)


lemma score_mono_website: "composite_score t e p False \<le> composite_score t e p True"
  by (cases t; cases e; cases p) (simp_all add: composite_score_values)

lemma score_mono_phone: "composite_score t e False w \<le> composite_score t e True w"
  by (cases t; cases e; cases w) (simp_all add: composite_score_values)

lemma score_mono_email: "composite_score t False p w \<le> composite_score t True p w"
  by (cases t; cases p; cases w) (simp_all add: composite_score_values)

lemma score_mono_title1: "composite_score NoTitleMatch e p w \<le> composite_score SubstringTitle e p w"
  by (cases e; cases p; cases w) (simp_all add: composite_score_values)

lemma score_mono_title2: "composite_score SubstringTitle e p w \<le> composite_score ExactTitle e p w"
  by (cases e; cases p; cases w) (simp_all add: composite_score_values)

lemma score_mono_title:
  assumes "title_rank t \<le> title_rank t'"
  shows "composite_score t e p w \<le> composite_score t' e p w"
proof (cases t; cases t')
qed (use assms score_mono_title1[of e p w] score_mono_title2[of e p w] in \<open>auto simp: title_rank_def\<close>)

lemma score_mono_bool:
  assumes "e \<longrightarrow> e'" "p \<longrightarrow> p'" "w \<longrightarrow> w'"
  shows "composite_score t e p w \<le> composite_score t e' p' w'"
proof -
  have "composite_score t e p w \<le> composite_score t e' p w"
    using assms(1) score_mono_email[of t p w] by (cases e; cases e') auto
  also have "\<dots> \<le> composite_score t e' p' w"
    using assms(2) score_mono_phone[of t e' w] by (cases p; cases p') auto
  also have "\<dots> \<le> composite_score t e' p' w'"
    using assms(3) score_mono_website[of t e' p'] by (cases w; cases w') auto
  finally show ?thesis .
qed

lemma composite_score_mono:
  assumes "title_rank t \<le> title_rank t'" "e \<longrightarrow> e'" "p \<longrightarrow> p'" "w \<longrightarrow> w'"
  shows "composite_score t e p w \<le> composite_score t' e' p' w'"
  using score_mono_title[OF assms(1), of e p w] score_mono_bool[OF assms(2-4), of t']
  by (rule order_trans)



lemma title_boost_bonus:
  "title_boost toLowerCase i e s =
   bonus (title_signal toLowerCase i e = SubstringTitle) (1 / 10) (bonus (title_signal toLowerCase i e = ExactTitle) (2 / 10) s)"
  by (simp add: title_boost_def title_signal_def bonus_def)

lemma email_boost_bonus: "email_boost i e s = bonus (email_signal i e) (15 / 100) s"
  by (simp add: email_boost_def email_signal_def bonus_def)

lemma phone_boost_bonus: "phone_boost i e s = bonus (phone_signal i e) (10 / 100) s"
  by (simp add: phone_boost_def phone_signal_def bonus_def)

lemma website_boost_bonus:
  "website_boost hostname i e s = bonus (website_signal hostname i e) (5 / 100) s"
  by (auto simp add: website_boost_def website_signal_def bonus_def split: option.splits)

lemma calculateMatchConfidence_composite:
  "calculateMatchConfidence toLowerCase hostname i e =
   composite_score (title_signal toLowerCase i e) (email_signal i e) (phone_signal i e) (website_signal hostname i e)"
  by (simp only: calculateMatchConfidence_def Let_def composite_score_def title_boost_bonus
      email_boost_bonus phone_boost_bonus website_boost_bonus)



lemma find_filter_single: "filter P xs = [r] \<Longrightarrow> find P xs = Some r"
  by (induction xs) (auto split: if_splits)

lemma find_filter_empty: "filter P xs = [] \<Longrightarrow> find P xs = None"
  by (induction xs) (auto split: if_splits)

lemma new_area_check:
  "((case inc of None \<Rightarrow> False | Some as \<Rightarrow> 0 < length as) \<and> 0 < length (new_areas inc ex)) =
   introduces_new_area inc ex"
  by (cases inc; cases ex)
     (auto simp add: introduces_new_area_def areas_of_def new_areas_def filter_empty_conv ex_in_conv)

lemma checkForChanges_iff: "checkForChanges c ex = has_new_information c ex"
  unfolding checkForChanges_def has_new_information_def field_differs_def new_area_check
  by simp


lemma r_id_rowToResearcher: "r_id (rowToResearcher row) = row_id row"
  by (simp add: rowToResearcher_def)

lemma findByEmail_single:
  "rows_with_email toLowerCase rows e = [row] \<Longrightarrow> findByEmail toLowerCase rows e = Some (rowToResearcher row)"
  by (simp add: rows_with_email_def findByEmail_def find_filter_single)

lemma findByEmail_none:
  "rows_with_email toLowerCase rows e = [] \<Longrightarrow> findByEmail toLowerCase rows e = None"
  by (simp add: rows_with_email_def findByEmail_def find_filter_empty)

text \<open>
  Claim C3. A candidate with a populated email for which the store holds exactly one row
  with that email is never inserted: the decision is \<open>update\<close>, carrying that row's
  identity, when at least one of the candidate's populated fields among title, email, phone,
  office and website differs from the stored value or the candidate brings a research-area
  tag the stored record lacks, and \<open>skip\<close> otherwise; the confidence is 1.0 in both cases.
  The fields compared are the candidate's populated ones, as the specification's change
  detection has it.
\<close>

theorem checkDuplicate_email_match:
  assumes "truthy_str (email c)" and "rows_with_email toLowerCase rows (the (email c)) = [row]"
  shows "checkDuplicate toLowerCase hostname rows c dir =
           (if has_new_information c (rowToResearcher row)
            then \<lparr> d_researcher = c, d_action = Update, d_existing_id = Some (row_id row),
                   d_match_reason = Some ''Email match with data changes'', d_confidence = 1 \<rparr>
            else \<lparr> d_researcher = c, d_action = Skip, d_existing_id = Some (row_id row),
                   d_match_reason = Some ''Exact email match'', d_confidence = 1 \<rparr>)"
  using assms
  by (simp add: checkDuplicate_def findByEmail_single checkForChanges_iff r_id_rowToResearcher)

lemma checkDuplicate_insert:
  assumes "no_email_match toLowerCase rows c" and "no_composite_match toLowerCase hostname rows c"
  shows "checkDuplicate toLowerCase hostname rows c dir = insert_decision c"
proof -
  have e: "(if truthy_str (email c) then findByEmail toLowerCase rows (the (email c)) else None) = None"
    using assms(1) by (simp add: no_email_match_def findByEmail_none split: if_splits)
  show ?thesis
    using assms(2)
    by (auto simp add: checkDuplicate_def e no_composite_match_def insert_decision_def Let_def
        split: if_splits option.splits)
qed

lemma findByEmail_in_rows:
  "findByEmail toLowerCase rows e = Some m \<Longrightarrow> \<exists>row \<in> set rows. m = rowToResearcher row"
  by (auto simp add: findByEmail_def find_Some_iff)

lemma findByNameAndUniversity_in_rows:
  "findByNameAndUniversity rows n u d = Some m \<Longrightarrow> \<exists>row \<in> set rows. m = rowToResearcher row"
  by (auto simp add: findByNameAndUniversity_def find_Some_iff)

lemma positive_ids_r_id:
  "positive_ids rows \<Longrightarrow> row \<in> set rows \<Longrightarrow> r_id (rowToResearcher row) \<noteq> 0"
  by (auto simp add: positive_ids_def list_all_iff r_id_rowToResearcher)

lemma checkDuplicate_id_truthy:
  assumes "positive_ids rows" and "d_action (checkDuplicate toLowerCase hostname rows c dir) \<noteq> Insert"
  shows "truthy_id (d_existing_id (checkDuplicate toLowerCase hostname rows c dir))"
proof (cases "if truthy_str (email c) then findByEmail toLowerCase rows (the (email c)) else None")
  case (Some m)
  then have "\<exists>row \<in> set rows. m = rowToResearcher row"
    by (auto dest: findByEmail_in_rows split: if_splits)
  then have "r_id m \<noteq> 0" using assms(1) by (auto dest: positive_ids_r_id)
  then show ?thesis using Some by (simp add: checkDuplicate_def truthy_id_def)
next
  case None
  show ?thesis
  proof (cases "if university c \<noteq> [] then findByNameAndUniversity rows (full_name c) (university c) (department c) else None")
    case None': None
    then show ?thesis using None assms(2) by (simp add: checkDuplicate_def)
  next
    case (Some m)
    then have "\<exists>row \<in> set rows. m = rowToResearcher row"
      by (auto dest: findByNameAndUniversity_in_rows split: if_splits)
    then have "r_id m \<noteq> 0" using assms(1) by (auto dest: positive_ids_r_id)
    then show ?thesis using None Some assms(2)
      by (simp add: checkDuplicate_def truthy_id_def Let_def split: if_splits)
  qed
qed


lemma dedupe_loop_acc:
  assumes "positive_ids rows"
  shows "dedupe_loop toLowerCase hostname rows dir rs (a, b, c) =
     (a @ filter (\<lambda>x. d_action (checkDuplicate toLowerCase hostname rows x dir) = Insert) rs,
      b @ map (\<lambda>x. \<lparr> u_researcher = x,
                       u_existing_id = the (d_existing_id (checkDuplicate toLowerCase hostname rows x dir)) \<rparr>)
            (filter (\<lambda>x. d_action (checkDuplicate toLowerCase hostname rows x dir) = Update) rs),
      c @ map (\<lambda>x. \<lparr> dup_researcher = x,
                       dup_existing_id = the (d_existing_id (checkDuplicate toLowerCase hostname rows x dir)),
                       dup_reason = (if truthy_str (d_match_reason (checkDuplicate toLowerCase hostname rows x dir))
                                     then the (d_match_reason (checkDuplicate toLowerCase hostname rows x dir))
                                     else ''Exact duplicate'') \<rparr>)
            (filter (\<lambda>x. d_action (checkDuplicate toLowerCase hostname rows x dir) = Skip) rs))"
proof (induction rs arbitrary: a b c)
  case Nil
  show ?case by simp
next
  case (Cons r rs)
  show ?case
  proof (cases "d_action (checkDuplicate toLowerCase hostname rows r dir)")
    case Insert
    then show ?thesis by (simp add: Cons.IH Let_def)
  next
    case Update
    then have "truthy_id (d_existing_id (checkDuplicate toLowerCase hostname rows r dir))"
      using checkDuplicate_id_truthy[OF assms, of toLowerCase hostname r dir] by simp
    then show ?thesis using Update by (simp add: Cons.IH Let_def)
  next
    case Skip
    then have "truthy_id (d_existing_id (checkDuplicate toLowerCase hostname rows r dir))"
      using checkDuplicate_id_truthy[OF assms, of toLowerCase hostname r dir] by simp
    then show ?thesis using Skip by (simp add: Cons.IH Let_def)
  qed
qed

lemma length_filter_action:
  "length (filter (\<lambda>x. f x = Insert) rs) + length (filter (\<lambda>x. f x = Update) rs) +
   length (filter (\<lambda>x. f x = Skip) rs) = length rs"
proof (induction rs)
  case Nil
  show ?case by simp
next
  case (Cons r rs)
  then show ?case by (cases "f r") simp_all
qed

text \<open>
  Claim C10. When the stored identities are positive, \<open>deduplicate\<close> places every input
  candidate in exactly one of its three lists, according to the action decided for it, in
  input order; \<open>total_input\<close> is the sum of the three lengths, and each reported count is
  the length of its list.
\<close>

theorem deduplicate_partition:
  assumes "positive_ids rows"
  shows "to_insert (deduplicate toLowerCase hostname rows inp) =
           filter (\<lambda>c. d_action (checkDuplicate toLowerCase hostname rows c (directory_id inp)) = Insert)
             (researchers inp) \<and>
         map u_researcher (to_update (deduplicate toLowerCase hostname rows inp)) =
           filter (\<lambda>c. d_action (checkDuplicate toLowerCase hostname rows c (directory_id inp)) = Update)
             (researchers inp) \<and>
         map dup_researcher (duplicates (deduplicate toLowerCase hostname rows inp)) =
           filter (\<lambda>c. d_action (checkDuplicate toLowerCase hostname rows c (directory_id inp)) = Skip)
             (researchers inp) \<and>
         total_input (stats (deduplicate toLowerCase hostname rows inp)) =
           length (to_insert (deduplicate toLowerCase hostname rows inp)) +
           length (to_update (deduplicate toLowerCase hostname rows inp)) +
           length (duplicates (deduplicate toLowerCase hostname rows inp)) \<and>
         total_input (stats (deduplicate toLowerCase hostname rows inp)) = length (researchers inp) \<and>
         stat_to_insert (stats (deduplicate toLowerCase hostname rows inp)) =
           length (to_insert (deduplicate toLowerCase hostname rows inp)) \<and>
         stat_to_update (stats (deduplicate toLowerCase hostname rows inp)) =
           length (to_update (deduplicate toLowerCase hostname rows inp)) \<and>
         stat_duplicates (stats (deduplicate toLowerCase hostname rows inp)) =
           length (duplicates (deduplicate toLowerCase hostname rows inp))"
  using length_filter_action[of "\<lambda>c. d_action (checkDuplicate toLowerCase hostname rows c (directory_id inp))"
          "researchers inp"]
  by (simp add: deduplicate_def dedupe_loop_acc[OF assms] comp_def)

text \<open>
  Claim C7. A candidate with no usable match (no stored row has its email, or it has none;
  and it has no university, or the lookup by name and university finds no row, or the row
  found scores below 0.9) is decided \<open>insert\<close> with confidence 1.0, and \<open>deduplicate\<close>
  puts it in \<open>to_insert\<close> and in neither other list.
\<close>

theorem checkDuplicate_no_usable_match:
  assumes "no_email_match toLowerCase rows c" and "no_composite_match toLowerCase hostname rows c"
  shows "checkDuplicate toLowerCase hostname rows c dir = insert_decision c \<and>
         d_action (insert_decision c) = Insert \<and> d_confidence (insert_decision c) = 1 \<and>
         to_insert (deduplicate toLowerCase hostname rows \<lparr> researchers = [c], directory_id = dir \<rparr>) = [c] \<and>
         to_update (deduplicate toLowerCase hostname rows \<lparr> researchers = [c], directory_id = dir \<rparr>) = [] \<and>
         duplicates (deduplicate toLowerCase hostname rows \<lparr> researchers = [c], directory_id = dir \<rparr>) = []"
  using checkDuplicate_insert[OF assms, of dir]
  by (simp add: deduplicate_def Let_def insert_decision_def)


theorem checkDuplicate_email_match_witness:
  "truthy_str (email jane_assoc) \<and>
   rows_with_email ascii_lower [jane_row] (the (email jane_assoc)) = [jane_row] \<and>
   checkDuplicate ascii_lower url_host [jane_row] jane_assoc 1 =
     \<lparr> d_researcher = jane_assoc, d_action = Update, d_existing_id = Some 1,
       d_match_reason = Some ''Email match with data changes'', d_confidence = 1 \<rparr> \<and>
   checkDuplicate ascii_lower url_host [jane_row] jane 1 =
     \<lparr> d_researcher = jane, d_action = Skip, d_existing_id = Some 1,
       d_match_reason = Some ''Exact email match'', d_confidence = 1 \<rparr>"
proof -
  have h1: "truthy_str (email jane_assoc)" "truthy_str (email jane)" by code_simp+
  have h2: "rows_with_email ascii_lower [jane_row] (the (email jane_assoc)) = [jane_row]"
    "rows_with_email ascii_lower [jane_row] (the (email jane)) = [jane_row]" by code_simp+
  have n: "has_new_information jane_assoc (rowToResearcher jane_row)"
    "\<not> has_new_information jane (rowToResearcher jane_row)" by code_simp+
  have i: "row_id jane_row = 1" by (simp add: jane_row_def)
  show ?thesis
    using checkDuplicate_email_match[OF h1(1) h2(1), of url_host 1]
      checkDuplicate_email_match[OF h1(2) h2(2), of url_host 1] n h1 h2 i
    by simp
qed

lemma composite_score_bounds: "1 / 2 \<le> composite_score t e p w \<and> composite_score t e p w \<le> 1"
  by (cases t; cases e; cases p; cases w) (simp_all add: composite_score_values)

text \<open>
  Claim C6. The confidence of a composite match is the base 0.5 plus 0.2 for an exact or 0.1
  for a substring title match, 0.15 for the email domain, 0.10 for the phone digits and 0.05
  for the website host, capped at 1.0; it lies between 0.5 and 1.0, and it does not decrease
  when matching signals are added.
\<close>

theorem calculateMatchConfidence_additive_monotone:
  "calculateMatchConfidence toLowerCase hostname i e =
     composite_score (title_signal toLowerCase i e) (email_signal i e) (phone_signal i e)
       (website_signal hostname i e) \<and>
   1 / 2 \<le> calculateMatchConfidence toLowerCase hostname i e \<and>
   calculateMatchConfidence toLowerCase hostname i e \<le> 1 \<and>
   (title_rank (title_signal toLowerCase i e) \<le> title_rank (title_signal toLowerCase i' e') \<and>
    (email_signal i e \<longrightarrow> email_signal i' e') \<and>
    (phone_signal i e \<longrightarrow> phone_signal i' e') \<and>
    (website_signal hostname i e \<longrightarrow> website_signal hostname i' e') \<longrightarrow>
    calculateMatchConfidence toLowerCase hostname i e \<le> calculateMatchConfidence toLowerCase hostname i' e')"
  using composite_score_bounds composite_score_mono
  by (simp add: calculateMatchConfidence_composite)

theorem calculateMatchConfidence_additive_monotone_witness:
  "title_rank (title_signal ascii_lower jane_no_email (rowToResearcher jane_row)) \<le>
     title_rank (title_signal ascii_lower jane_other_email (rowToResearcher jane_row)) \<and>
   \<not> email_signal jane_no_email (rowToResearcher jane_row) \<and>
   email_signal jane_other_email (rowToResearcher jane_row) \<and>
   \<not> phone_signal jane_no_email (rowToResearcher jane_row) \<and>
   \<not> website_signal url_host jane_no_email (rowToResearcher jane_row) \<and>
   calculateMatchConfidence ascii_lower url_host jane_no_email (rowToResearcher jane_row) \<le>
     calculateMatchConfidence ascii_lower url_host jane_other_email (rowToResearcher jane_row) \<and>
   calculateMatchConfidence ascii_lower url_host jane_no_email (rowToResearcher jane_row) =
     composite_score ExactTitle False False False \<and>
   calculateMatchConfidence ascii_lower url_host jane_other_email (rowToResearcher jane_row) =
     composite_score ExactTitle True False False"
proof -
  have t: "title_signal ascii_lower jane_no_email (rowToResearcher jane_row) = ExactTitle"
    "title_signal ascii_lower jane_other_email (rowToResearcher jane_row) = ExactTitle" by code_simp+
  have e: "\<not> email_signal jane_no_email (rowToResearcher jane_row)"
    "email_signal jane_other_email (rowToResearcher jane_row)" by code_simp+
  have p: "\<not> phone_signal jane_no_email (rowToResearcher jane_row)"
    "\<not> phone_signal jane_other_email (rowToResearcher jane_row)" by code_simp+
  have w: "\<not> website_signal url_host jane_no_email (rowToResearcher jane_row)"
    "\<not> website_signal url_host jane_other_email (rowToResearcher jane_row)" by code_simp+
  show ?thesis
    using calculateMatchConfidence_additive_monotone[of ascii_lower url_host jane_no_email
        "rowToResearcher jane_row" jane_other_email "rowToResearcher jane_row"]
      calculateMatchConfidence_additive_monotone[of ascii_lower url_host jane_other_email
        "rowToResearcher jane_row" jane_other_email "rowToResearcher jane_row"]
      t e p w
    by simp
qed

lemma jane_no_email_facts:
  "no_email_match ascii_lower [jane_row] jane_no_email"
  "findByNameAndUniversity [jane_row] (full_name jane_no_email) (university jane_no_email)
     (department jane_no_email) = Some (rowToResearcher jane_row)"
  "calculateMatchConfidence ascii_lower url_host jane_no_email (rowToResearcher jane_row) < fl (9 / 10)"
  "no_composite_match ascii_lower url_host [jane_row] jane_no_email"
proof -
  show a: "no_email_match ascii_lower [jane_row] jane_no_email" by code_simp
  show f: "findByNameAndUniversity [jane_row] (full_name jane_no_email) (university jane_no_email)
     (department jane_no_email) = Some (rowToResearcher jane_row)" by code_simp
  have u: "university jane_no_email \<noteq> []" by code_simp
  have t: "title_signal ascii_lower jane_no_email (rowToResearcher jane_row) = ExactTitle" by code_simp
  have s: "\<not> email_signal jane_no_email (rowToResearcher jane_row)"
    "\<not> phone_signal jane_no_email (rowToResearcher jane_row)"
    "\<not> website_signal url_host jane_no_email (rowToResearcher jane_row)" by code_simp+
  show c: "calculateMatchConfidence ascii_lower url_host jane_no_email (rowToResearcher jane_row) < fl (9 / 10)"
    by (simp add: calculateMatchConfidence_composite t s composite_score_values fl_lits)
  show "no_composite_match ascii_lower url_host [jane_row] jane_no_email"
    using u c by (simp add: no_composite_match_def f)
qed

theorem checkDuplicate_no_usable_match_witness:
  "no_email_match ascii_lower [jane_row] jane_no_email \<and>
   no_composite_match ascii_lower url_host [jane_row] jane_no_email \<and>
   findByNameAndUniversity [jane_row] (full_name jane_no_email) (university jane_no_email)
     (department jane_no_email) = Some (rowToResearcher jane_row) \<and>
   calculateMatchConfidence ascii_lower url_host jane_no_email (rowToResearcher jane_row) < fl (9 / 10) \<and>
   checkDuplicate ascii_lower url_host [jane_row] jane_no_email 1 = insert_decision jane_no_email \<and>
   to_insert (deduplicate ascii_lower url_host [jane_row] \<lparr> researchers = [jane_no_email], directory_id = 1 \<rparr>)
     = [jane_no_email] \<and>
   duplicates (deduplicate ascii_lower url_host [jane_row] \<lparr> researchers = [jane_no_email], directory_id = 1 \<rparr>)
     = []"
  using checkDuplicate_no_usable_match[OF jane_no_email_facts(1) jane_no_email_facts(4), of 1]
    jane_no_email_facts
  by simp

theorem deduplicate_partition_witness:
  "positive_ids [jane_row] \<and>
   to_insert (deduplicate ascii_lower url_host [jane_row]
      \<lparr> researchers = [jane, jane_no_email, jane_assoc], directory_id = 1 \<rparr>) = [jane_no_email] \<and>
   map u_researcher (to_update (deduplicate ascii_lower url_host [jane_row]
      \<lparr> researchers = [jane, jane_no_email, jane_assoc], directory_id = 1 \<rparr>)) = [jane_assoc] \<and>
   map dup_researcher (duplicates (deduplicate ascii_lower url_host [jane_row]
      \<lparr> researchers = [jane, jane_no_email, jane_assoc], directory_id = 1 \<rparr>)) = [jane] \<and>
   total_input (stats (deduplicate ascii_lower url_host [jane_row]
      \<lparr> researchers = [jane, jane_no_email, jane_assoc], directory_id = 1 \<rparr>)) = 3"
proof -
  have p: "positive_ids [jane_row]" by code_simp
  have a: "d_action (checkDuplicate ascii_lower url_host [jane_row] jane 1) = Skip"
    "d_action (checkDuplicate ascii_lower url_host [jane_row] jane_assoc 1) = Update" by code_simp+
  have b: "d_action (checkDuplicate ascii_lower url_host [jane_row] jane_no_email 1) = Insert"
    using checkDuplicate_insert[OF jane_no_email_facts(1) jane_no_email_facts(4), of 1]
    by (simp add: insert_decision_def)
  note d = deduplicate_partition[OF p, of ascii_lower url_host
        "\<lparr> researchers = [jane, jane_no_email, jane_assoc], directory_id = 1 \<rparr>"]
  have t: "total_input (stats (deduplicate ascii_lower url_host [jane_row]
      \<lparr> researchers = [jane, jane_no_email, jane_assoc], directory_id = 1 \<rparr>)) = 3"
    by (simp add: deduplicate_def split: prod.splits)
  have i: "to_insert (deduplicate ascii_lower url_host [jane_row]
      \<lparr> researchers = [jane, jane_no_email, jane_assoc], directory_id = 1 \<rparr>) = [jane_no_email]"
    using d[THEN conjunct1] a b by simp
  have u: "map u_researcher (to_update (deduplicate ascii_lower url_host [jane_row]
      \<lparr> researchers = [jane, jane_no_email, jane_assoc], directory_id = 1 \<rparr>)) = [jane_assoc]"
    using d[THEN conjunct2, THEN conjunct1] a b by simp
  have k: "map dup_researcher (duplicates (deduplicate ascii_lower url_host [jane_row]
      \<lparr> researchers = [jane, jane_no_email, jane_assoc], directory_id = 1 \<rparr>)) = [jane]"
    using d[THEN conjunct2, THEN conjunct2, THEN conjunct1] a b by simp
  show ?thesis using p t i u k by simp
qed

section \<open>The merge engine\<close>

lemma merge_h_index_fst:
  "fst (merge_h_index ex en st) k =
     (if k = ''h_index'' \<and> fst (metric_rule ''h_index'' (r_h_index ex) (e_h_index en)) \<noteq> None
      then fst (metric_rule ''h_index'' (r_h_index ex) (e_h_index en)) else fst st k)"
  by (cases st; cases "e_h_index en"; cases "r_h_index ex")
     (auto simp add: merge_h_index_def metric_rule_def Let_def)

lemma merge_h_index_snd:
  "snd (merge_h_index ex en st) =
     snd st @ snd (metric_rule ''h_index'' (r_h_index ex) (e_h_index en))"
  by (cases st; cases "e_h_index en"; cases "r_h_index ex")
     (auto simp add: merge_h_index_def metric_rule_def Let_def js_number_def)

lemma merge_citations_fst_other:
  "k \<noteq> ''citations_total'' \<Longrightarrow> fst (merge_citations ex en st) k = fst st k"
  by (cases st; cases "e_citations_total en")
     (auto simp add: merge_citations_def Let_def)

lemma merge_citations_fst:
  "r_citations_total ex = Some m \<Longrightarrow>
   fst (merge_citations ex en st) k =
     (if k = ''citations_total'' \<and>
         fst (metric_rule ''citations_total'' (r_citations_total ex) (e_citations_total en)) \<noteq> None
      then fst (metric_rule ''citations_total'' (r_citations_total ex) (e_citations_total en))
      else fst st k)"
  by (cases st; cases "e_citations_total en")
     (auto simp add: merge_citations_def metric_rule_def Let_def)

lemma merge_citations_snd:
  "r_citations_total ex = Some m \<Longrightarrow>
   snd (merge_citations ex en st) =
     snd st @ snd (metric_rule ''citations_total'' (r_citations_total ex) (e_citations_total en))"
  by (cases st; cases "e_citations_total en")
     (auto simp add: merge_citations_def metric_rule_def Let_def js_number_def)

lemma merge_citations_conflicts_other:
  "''citations_total'' \<notin> set names \<Longrightarrow>
   conflicts_on names (snd (merge_citations ex en st)) = conflicts_on names (snd st)"
  by (cases st; cases "e_citations_total en")
     (auto simp add: merge_citations_def conflicts_on_def Let_def)

lemma merge_citations_shape:
  "fst (merge_citations ex en st) ''citations_total'' = fst st ''citations_total'' \<or>
   (\<exists>n. fst (merge_citations ex en st) ''citations_total'' = Some (JNum n))"
  by (cases st; cases "e_citations_total en")
     (auto simp add: merge_citations_def Let_def)

lemma merge_research_areas_fst_other:
  "k \<noteq> ''research_areas'' \<Longrightarrow> fst (merge_research_areas ex en st) k = fst st k"
  by (cases st; cases "e_research_areas en")
     (auto simp add: merge_research_areas_def Let_def)

lemma merge_research_areas_shape:
  "fst (merge_research_areas ex en st) ''research_areas'' = fst st ''research_areas'' \<or>
   (\<exists>xs. fst (merge_research_areas ex en st) ''research_areas'' = Some (JArr xs))"
  by (cases st; cases "e_research_areas en")
     (auto simp add: merge_research_areas_def Let_def js_strings_def)

lemma merge_research_areas_conflicts_other:
  "''research_areas'' \<notin> set names \<Longrightarrow>
   conflicts_on names (snd (merge_research_areas ex en st)) = conflicts_on names (snd st)"
  by (cases st; cases "e_research_areas en")
     (auto simp add: merge_research_areas_def conflicts_on_def Let_def)

lemma adopt_if_missing_apply:
  "adopt_if_missing key new old m k =
     (if k = key \<and> descriptive_rule old new \<noteq> None then descriptive_rule old new else m k)"
  by (simp add: adopt_if_missing_def descriptive_rule_def)

lemma merge_descriptive_other:
  "k \<notin> set descriptive_fields \<Longrightarrow> merge_descriptive ex en m k = m k"
  by (simp add: merge_descriptive_def Let_def adopt_if_missing_apply descriptive_fields_def)

lemma merge_descriptive_fields:
  "merge_descriptive ex en m ''bio'' =
     (if descriptive_rule (r_bio ex) (e_bio en) \<noteq> None
      then descriptive_rule (r_bio ex) (e_bio en) else m ''bio'')"
  "merge_descriptive ex en m ''google_scholar_url'' =
     (if descriptive_rule (r_google_scholar_url ex) (e_google_scholar_url en) \<noteq> None
      then descriptive_rule (r_google_scholar_url ex) (e_google_scholar_url en)
      else m ''google_scholar_url'')"
  "merge_descriptive ex en m ''dblp_url'' =
     (if descriptive_rule (r_dblp_url ex) (e_dblp_url en) \<noteq> None
      then descriptive_rule (r_dblp_url ex) (e_dblp_url en) else m ''dblp_url'')"
  "merge_descriptive ex en m ''semantic_scholar_id'' =
     (if descriptive_rule (r_semantic_scholar_id ex) (e_semantic_scholar_id en) \<noteq> None
      then descriptive_rule (r_semantic_scholar_id ex) (e_semantic_scholar_id en)
      else m ''semantic_scholar_id'')"
  "merge_descriptive ex en m ''orcid'' =
     (if descriptive_rule (r_orcid ex) (e_orcid en) \<noteq> None
      then descriptive_rule (r_orcid ex) (e_orcid en) else m ''orcid'')"
  by (simp_all add: merge_descriptive_def Let_def adopt_if_missing_apply)


lemma metric_rule_larger:
  "metric_after (Some m) (fst (metric_rule name (Some m) (Some n))) = JNum (of_int (max m n))"
  by (simp add: metric_rule_def metric_after_def js_number_def max_def)

lemma merged_h_index:
  "merged (mergeEnrichmentData now inp) ''h_index'' =
     fst (metric_rule ''h_index'' (r_h_index (existing inp)) (e_h_index (enriched inp)))"
  by (simp add: mergeEnrichmentData_def Let_def merge_descriptive_other descriptive_fields_def
      merge_research_areas_fst_other merge_citations_fst_other merge_h_index_fst)

lemma conflicts_h_index:
  "conflicts_on [''h_index''] (conflicts (mergeEnrichmentData now inp)) =
     snd (metric_rule ''h_index'' (r_h_index (existing inp)) (e_h_index (enriched inp)))"
proof -
  have "conflicts_on [''h_index''] (snd (metric_rule ''h_index'' old new)) =
          snd (metric_rule ''h_index'' old new)" for old new
    by (simp add: metric_rule_def conflicts_on_def split: option.splits)
  then show ?thesis
    by (simp add: mergeEnrichmentData_def Let_def merge_research_areas_conflicts_other
        merge_citations_conflicts_other merge_h_index_snd)
qed

lemma merged_citations:
  assumes "r_citations_total (existing inp) = Some m"
  shows "merged (mergeEnrichmentData now inp) ''citations_total'' =
     fst (metric_rule ''citations_total'' (r_citations_total (existing inp))
            (e_citations_total (enriched inp)))"
  by (simp add: mergeEnrichmentData_def Let_def merge_descriptive_other descriptive_fields_def
      merge_research_areas_fst_other merge_citations_fst[OF assms] merge_h_index_fst)

lemma conflicts_citations:
  assumes "r_citations_total (existing inp) = Some m"
  shows "conflicts_on [''citations_total''] (conflicts (mergeEnrichmentData now inp)) =
     snd (metric_rule ''citations_total'' (r_citations_total (existing inp))
            (e_citations_total (enriched inp)))"
proof -
  have a: "conflicts_on [''citations_total''] (snd (metric_rule ''citations_total'' old new)) =
          snd (metric_rule ''citations_total'' old new)" for old new
    by (simp add: metric_rule_def conflicts_on_def split: option.splits)
  have b: "conflicts_on [''citations_total''] (snd (metric_rule ''h_index'' old new)) = []" for old new
    by (simp add: metric_rule_def conflicts_on_def split: option.splits)
  have c: "conflicts_on ns (xs @ ys) = conflicts_on ns xs @ conflicts_on ns ys" for ns xs ys
    by (simp add: conflicts_on_def)
  show ?thesis
    by (simp add: mergeEnrichmentData_def Let_def merge_research_areas_conflicts_other
        merge_citations_snd[OF assms] merge_h_index_snd a b c)
qed


text \<open>
  Claim C4, as the code has it. For the h-index, the merge takes the larger of the existing
  and the new value: when both are present and differ it emits exactly one conflict for
  the field, \<open>use_new\<close> if the new value is larger and \<open>keep_existing\<close> otherwise, and when
  the existing value is absent it adopts the new one with no conflict. For the citation
  count the same holds whenever the existing record has a count, as its type requires.
\<close>

theorem mergeEnrichmentData_metrics:
  "merged (mergeEnrichmentData now inp) ''h_index'' =
     fst (metric_rule ''h_index'' (r_h_index (existing inp)) (e_h_index (enriched inp))) \<and>
   conflicts_on [''h_index''] (conflicts (mergeEnrichmentData now inp)) =
     snd (metric_rule ''h_index'' (r_h_index (existing inp)) (e_h_index (enriched inp))) \<and>
   (r_h_index (existing inp) = Some m \<and> e_h_index (enriched inp) = Some n \<longrightarrow>
      metric_after (Some m) (merged (mergeEnrichmentData now inp) ''h_index'') =
        JNum (of_int (max m n))) \<and>
   (r_citations_total (existing inp) = Some m' \<longrightarrow>
      merged (mergeEnrichmentData now inp) ''citations_total'' =
        fst (metric_rule ''citations_total'' (Some m') (e_citations_total (enriched inp))) \<and>
      conflicts_on [''citations_total''] (conflicts (mergeEnrichmentData now inp)) =
        snd (metric_rule ''citations_total'' (Some m') (e_citations_total (enriched inp)))) \<and>
   (r_citations_total (existing inp) = Some m' \<and> e_citations_total (enriched inp) = Some n' \<longrightarrow>
      metric_after (Some m') (merged (mergeEnrichmentData now inp) ''citations_total'') =
        JNum (of_int (max m' n')))"
proof -
  have c: "r_citations_total (existing inp) = Some m' \<Longrightarrow>
      merged (mergeEnrichmentData now inp) ''citations_total'' =
        fst (metric_rule ''citations_total'' (Some m') (e_citations_total (enriched inp))) \<and>
      conflicts_on [''citations_total''] (conflicts (mergeEnrichmentData now inp)) =
        snd (metric_rule ''citations_total'' (Some m') (e_citations_total (enriched inp)))"
    using merged_citations[of inp m' now] conflicts_citations[of inp m' now] by simp
  show ?thesis
    using c metric_rule_larger[of m "''h_index''" n] metric_rule_larger[of m' "''citations_total''" n']
    by (auto simp add: merged_h_index conflicts_h_index)
qed


theorem mergeEnrichmentData_metrics_witness:
  "r_h_index (existing merge_input_metrics) = Some 25 \<and>
   e_h_index (enriched merge_input_metrics) = Some 30 \<and>
   r_citations_total (existing merge_input_metrics) = Some 5000 \<and>
   e_citations_total (enriched merge_input_metrics) = Some 6000 \<and>
   merged (mergeEnrichmentData timestamp merge_input_metrics) ''h_index'' = Some (JNum 30) \<and>
   conflicts_on [''h_index''] (conflicts (mergeEnrichmentData timestamp merge_input_metrics)) =
     [\<lparr> mc_field = ''h_index'', existing_value = JNum 25, new_value = JNum 30,
        resolution = use_new \<rparr>] \<and>
   metric_after (Some 25) (merged (mergeEnrichmentData timestamp merge_input_metrics) ''h_index'') =
     JNum 30 \<and>
   merged (mergeEnrichmentData timestamp merge_input_metrics) ''citations_total'' =
     Some (JNum 6000) \<and>
   conflicts_on [''citations_total''] (conflicts (mergeEnrichmentData timestamp merge_input_metrics)) =
     [\<lparr> mc_field = ''citations_total'', existing_value = JNum 5000, new_value = JNum 6000,
        resolution = use_new \<rparr>]"
proof -
  have f: "r_h_index (existing merge_input_metrics) = Some 25"
    "e_h_index (enriched merge_input_metrics) = Some 30"
    "r_citations_total (existing merge_input_metrics) = Some 5000"
    "e_citations_total (enriched merge_input_metrics) = Some 6000"
    by (simp_all add: merge_input_metrics_def john_def no_data_def)
  show ?thesis
    using mergeEnrichmentData_metrics[of timestamp merge_input_metrics 25 30 5000 6000] f
    by (simp add: metric_rule_def metric_after_def)
qed

text \<open>
  Claim C4 as stated also covers a citation count that the existing record lacks. There the
  new count is not adopted, and a \<open>keep_existing\<close> conflict is emitted.
\<close>

theorem mergeEnrichmentData_citations_counterexample:
  "r_citations_total (existing merge_input_no_citations) = None \<and>
   e_citations_total (enriched merge_input_no_citations) = Some 5000 \<and>
   merged (mergeEnrichmentData timestamp merge_input_no_citations) ''citations_total'' = None \<and>
   conflicts_on [''citations_total'']
     (conflicts (mergeEnrichmentData timestamp merge_input_no_citations)) =
     [\<lparr> mc_field = ''citations_total'', existing_value = JUndefined, new_value = JNum 5000,
        resolution = keep_existing \<rparr>]"
  by code_simp

lemma conflicts_descriptive:
  "conflicts_on descriptive_fields (conflicts (mergeEnrichmentData now inp)) = []"
proof -
  have a: "conflicts_on descriptive_fields (snd (metric_rule ''h_index'' old new)) = []" for old new
    by (simp add: metric_rule_def conflicts_on_def descriptive_fields_def split: option.splits)
  have b: "''citations_total'' \<notin> set descriptive_fields"
    "''research_areas'' \<notin> set descriptive_fields"
    by (simp_all add: descriptive_fields_def)
  have c: "conflicts_on ns (xs @ ys) = conflicts_on ns xs @ conflicts_on ns ys" for ns xs ys
    by (simp add: conflicts_on_def)
  have d: "conflicts_on ns [] = []" for ns
    by (simp add: conflicts_on_def)
  show ?thesis
    by (simp add: mergeEnrichmentData_def Let_def merge_research_areas_conflicts_other[OF b(2)]
        merge_citations_conflicts_other[OF b(1)] merge_h_index_snd a c d)
qed

lemma merged_descriptive:
  "merged (mergeEnrichmentData now inp) ''bio'' =
     descriptive_rule (r_bio (existing inp)) (e_bio (enriched inp))"
  "merged (mergeEnrichmentData now inp) ''google_scholar_url'' =
     descriptive_rule (r_google_scholar_url (existing inp)) (e_google_scholar_url (enriched inp))"
  "merged (mergeEnrichmentData now inp) ''dblp_url'' =
     descriptive_rule (r_dblp_url (existing inp)) (e_dblp_url (enriched inp))"
  "merged (mergeEnrichmentData now inp) ''semantic_scholar_id'' =
     descriptive_rule (r_semantic_scholar_id (existing inp)) (e_semantic_scholar_id (enriched inp))"
  "merged (mergeEnrichmentData now inp) ''orcid'' =
     descriptive_rule (r_orcid (existing inp)) (e_orcid (enriched inp))"
  by (simp_all add: mergeEnrichmentData_def Let_def merge_descriptive_fields
      merge_research_areas_fst_other merge_citations_fst_other merge_h_index_fst)


text \<open>
  Claim C5, as the code has it. For bio, google_scholar_url, dblp_url, semantic_scholar_id
  and orcid, the new value enters the partial update exactly when it is populated and the
  existing field is empty; a populated field is never overwritten (the field is then absent
  from the update); and no conflict is ever emitted for these fields.
\<close>

theorem mergeEnrichmentData_descriptive:
  "merged (mergeEnrichmentData now inp) ''bio'' =
     descriptive_rule (r_bio (existing inp)) (e_bio (enriched inp)) \<and>
   merged (mergeEnrichmentData now inp) ''google_scholar_url'' =
     descriptive_rule (r_google_scholar_url (existing inp)) (e_google_scholar_url (enriched inp)) \<and>
   merged (mergeEnrichmentData now inp) ''dblp_url'' =
     descriptive_rule (r_dblp_url (existing inp)) (e_dblp_url (enriched inp)) \<and>
   merged (mergeEnrichmentData now inp) ''semantic_scholar_id'' =
     descriptive_rule (r_semantic_scholar_id (existing inp)) (e_semantic_scholar_id (enriched inp)) \<and>
   merged (mergeEnrichmentData now inp) ''orcid'' =
     descriptive_rule (r_orcid (existing inp)) (e_orcid (enriched inp)) \<and>
   conflicts_on descriptive_fields (conflicts (mergeEnrichmentData now inp)) = []"
  by (simp only: merged_descriptive conflicts_descriptive simp_thms)

theorem mergeEnrichmentData_descriptive_witness:
  "merged (mergeEnrichmentData timestamp merge_input_bio) ''bio'' = None \<and>
   merged (mergeEnrichmentData timestamp
     \<lparr> existing = john, enriched = no_data\<lparr> e_bio := Some ''B'' \<rparr> \<rparr>) ''bio'' = Some (JStr ''B'') \<and>
   conflicts_on descriptive_fields (conflicts (mergeEnrichmentData timestamp
     \<lparr> existing = john, enriched = no_data\<lparr> e_bio := Some ''B'' \<rparr> \<rparr>)) = []"
  using mergeEnrichmentData_descriptive[of timestamp merge_input_bio]
    mergeEnrichmentData_descriptive[of timestamp
      "\<lparr> existing = john, enriched = no_data\<lparr> e_bio := Some ''B'' \<rparr> \<rparr>"]
  by (simp add: descriptive_rule_def truthy_str_def merge_input_bio_def john_def no_data_def)

text \<open>
  Claim C5 as stated has a \<open>keep_existing\<close> conflict emitted when both values are populated
  and differ. With the existing bio A and the new bio B the conflict list is empty.
\<close>

theorem mergeEnrichmentData_bio_counterexample:
  "truthy_str (r_bio (existing merge_input_bio)) \<and>
   truthy_str (e_bio (enriched merge_input_bio)) \<and>
   r_bio (existing merge_input_bio) \<noteq> e_bio (enriched merge_input_bio) \<and>
   conflicts (mergeEnrichmentData timestamp merge_input_bio) = []"
  by code_simp

lemma truthy_h_index:
  "truthy_prop (merged (mergeEnrichmentData now inp)) ''h_index'' =
   present_nonzero (merged (mergeEnrichmentData now inp) ''h_index'')"
  by (simp add: merged_h_index truthy_prop_def present_nonzero_def metric_rule_def
      split: option.splits)

lemma merged_citations_shape:
  "merged (mergeEnrichmentData now inp) ''citations_total'' = None \<or>
   (\<exists>n. merged (mergeEnrichmentData now inp) ''citations_total'' = Some (JNum n))"
  using merge_citations_shape[of "existing inp" "enriched inp"
      "merge_h_index (existing inp) (enriched inp) (Map.empty, [])"]
  by (simp add: mergeEnrichmentData_def Let_def merge_descriptive_other descriptive_fields_def
      merge_research_areas_fst_other merge_h_index_fst)

lemma truthy_citations:
  "truthy_prop (merged (mergeEnrichmentData now inp)) ''citations_total'' =
   present_nonzero (merged (mergeEnrichmentData now inp) ''citations_total'')"
  using merged_citations_shape[of now inp]
  by (auto simp add: truthy_prop_def present_nonzero_def)

lemma merged_areas_shape:
  "merged (mergeEnrichmentData now inp) ''research_areas'' = None \<or>
   (\<exists>xs. merged (mergeEnrichmentData now inp) ''research_areas'' = Some (JArr xs))"
  using merge_research_areas_shape[of "existing inp" "enriched inp"
      "merge_citations (existing inp) (enriched inp)
         (merge_h_index (existing inp) (enriched inp) (Map.empty, []))"]
  by (simp add: mergeEnrichmentData_def Let_def merge_descriptive_other descriptive_fields_def
      merge_citations_fst_other merge_h_index_fst)

lemma truthy_areas:
  "truthy_prop (merged (mergeEnrichmentData now inp)) ''research_areas'' =
   (merged (mergeEnrichmentData now inp) ''research_areas'' \<noteq> None)"
  using merged_areas_shape[of now inp]
  by (auto simp add: truthy_prop_def)

lemma merge_confidence_score:
  "merge_confidence m ps =
   confidence_score (truthy_prop m ''h_index'') (truthy_prop m ''citations_total'')
     (truthy_prop m ''research_areas'') (ps \<noteq> [])"
  by (simp add: merge_confidence_def confidence_score_def bonus_def Let_def)

lemma confidence_is_merge_confidence:
  "confidence (mergeEnrichmentData now inp) =
   merge_confidence (merged (mergeEnrichmentData now inp))
     (publications_to_add (mergeEnrichmentData now inp))"
  by (simp add: mergeEnrichmentData_def Let_def)

text \<open>
  Claim C8, as the code has it. The confidence is 0.5, plus 0.1 if the partial update
  carries a non-zero h-index, plus 0.1 if it carries a non-zero citation count, plus 0.1 if
  it carries research areas, plus 0.2 if at least one publication was proposed, capped at
  1.0 (floating-point sums, in this order).
\<close>

theorem mergeEnrichmentData_confidence:
  "confidence (mergeEnrichmentData now inp) =
     confidence_score
       (present_nonzero (merged (mergeEnrichmentData now inp) ''h_index''))
       (present_nonzero (merged (mergeEnrichmentData now inp) ''citations_total''))
       (merged (mergeEnrichmentData now inp) ''research_areas'' \<noteq> None)
       (publications_to_add (mergeEnrichmentData now inp) \<noteq> [])"
  by (simp only: confidence_is_merge_confidence merge_confidence_score truthy_h_index
      truthy_citations truthy_areas)

lemma confidence_score_values:
  "confidence_score False False False False = 1 / 2"
  "confidence_score True False False False = 5404319552844595 / 9007199254740992"
  by (simp_all add: confidence_score_def bonus_def fl_eval)

text \<open>
  Claim C8 as stated gives the bonus for an h-index that is present. An adopted h-index of
  0 is present in the partial update and earns nothing; neither does an existing h-index
  of 30 that the merge keeps, since the partial update then has no h-index.
\<close>

theorem mergeEnrichmentData_confidence_counterexample:
  "merged (mergeEnrichmentData timestamp merge_input_zero_h) ''h_index'' = Some (JNum 0) \<and>
   confidence (mergeEnrichmentData timestamp merge_input_zero_h) = 1 / 2 \<and>
   confidence (mergeEnrichmentData timestamp merge_input_zero_h) \<noteq>
     confidence_score
       (merged (mergeEnrichmentData timestamp merge_input_zero_h) ''h_index'' \<noteq> None)
       (merged (mergeEnrichmentData timestamp merge_input_zero_h) ''citations_total'' \<noteq> None)
       (merged (mergeEnrichmentData timestamp merge_input_zero_h) ''research_areas'' \<noteq> None)
       (publications_to_add (mergeEnrichmentData timestamp merge_input_zero_h) \<noteq> []) \<and>
   r_h_index (existing merge_input_kept_h) = Some 30 \<and>
   merged (mergeEnrichmentData timestamp merge_input_kept_h) ''h_index'' = None \<and>
   confidence (mergeEnrichmentData timestamp merge_input_kept_h) = 1 / 2"
proof -
  have a: "merged (mergeEnrichmentData timestamp merge_input_zero_h) ''h_index'' = Some (JNum 0)"
    "merged (mergeEnrichmentData timestamp merge_input_zero_h) ''citations_total'' = None"
    "merged (mergeEnrichmentData timestamp merge_input_zero_h) ''research_areas'' = None"
    "publications_to_add (mergeEnrichmentData timestamp merge_input_zero_h) = []"
    "r_h_index (existing merge_input_kept_h) = Some 30"
    "merged (mergeEnrichmentData timestamp merge_input_kept_h) ''h_index'' = None"
    "merged (mergeEnrichmentData timestamp merge_input_kept_h) ''citations_total'' = None"
    "merged (mergeEnrichmentData timestamp merge_input_kept_h) ''research_areas'' = None"
    "publications_to_add (mergeEnrichmentData timestamp merge_input_kept_h) = []"
    by code_simp+
  have b: "confidence (mergeEnrichmentData timestamp merge_input_zero_h) = 1 / 2"
    "confidence (mergeEnrichmentData timestamp merge_input_kept_h) = 1 / 2"
    by (simp_all add: confidence_is_merge_confidence merge_confidence_score truthy_h_index
        truthy_citations truthy_areas a present_nonzero_def confidence_score_values)
  show ?thesis
    by (simp add: a b confidence_score_values)
qed

section \<open>The step recorder and the tracking wrapper\<close>

lemma input_path_distinct:
  "path_join d (n @ ''_output.json'') \<noteq> path_join d (n @ ''_input.json'')"
  "path_join d (n @ ''_error.json'') \<noteq> path_join d (n @ ''_input.json'')"
  "path_join d (n @ ''_input.json'') \<noteq> path_join d (n @ ''_output.json'')"
  "path_join d (n @ ''_input.json'') \<noteq> path_join d (n @ ''_error.json'')"
  by (simp_all add: path_join_def)

lemma storeStepOutput_cases:
  "jid \<in> set (job_ids d) \<Longrightarrow> \<exists>d'. storeStepOutput jid n i out ms ok e d = Inr d' \<and>
      store d' = store d \<and> tbl_directories d' = tbl_directories d \<and> job_ids d' = job_ids d"
  "jid \<notin> set (job_ids d) \<Longrightarrow> storeStepOutput jid n i out ms ok e d = Inl ''FOREIGN KEY constraint failed''"
  by (simp_all add: storeStepOutput_def job_ids_def)

lemma storeStepOutput_frame:
  "storeStepOutput jid n i out ms ok e d = Inr d' \<Longrightarrow>
     store d' = store d \<and> tbl_directories d' = tbl_directories d \<and> job_ids d' = job_ids d \<and>
     jid \<in> set (job_ids d)"
  by (auto simp add: storeStepOutput_def job_ids_def split: if_splits)

lemma recordStepStart_facts:
  "files (snd (recordStepStart isoNow n inp s)) (path_join (debugDir (recorder s)) (n @ ''_input.json'')) =
     Some (FInput inp)"
  "debugDir (recorder (snd (recordStepStart isoNow n inp s))) = debugDir (recorder s)"
  "rec_jobId (recorder (snd (recordStepStart isoNow n inp s))) = rec_jobId (recorder s)"
  "store (db (snd (recordStepStart isoNow n inp s))) = store (db s)"
  "tbl_directories (db (snd (recordStepStart isoNow n inp s))) = tbl_directories (db s)"
  "job_ids (db (snd (recordStepStart isoNow n inp s))) = job_ids (db s)"
  "\<exists>cur. currentStep (recorder (snd (recordStepStart isoNow n inp s))) = Some cur \<and> sr_stepName cur = n"
  "fst (recordStepStart isoNow n inp s) =
     (if job_known s then None else Some ''FOREIGN KEY constraint failed'')"
  by (auto simp add: recordStepStart_def Let_def storeStepOutput_def job_ids_def job_known_def)

lemma recordStepEnd_facts:
  "files (snd (recordStepEnd isoNow n out ms s)) (path_join (debugDir (recorder s)) (n @ ''_input.json'')) =
   files s (path_join (debugDir (recorder s)) (n @ ''_input.json''))"
  "debugDir (recorder (snd (recordStepEnd isoNow n out ms s))) = debugDir (recorder s)"
  "rec_jobId (recorder (snd (recordStepEnd isoNow n out ms s))) = rec_jobId (recorder s)"
  "store (db (snd (recordStepEnd isoNow n out ms s))) = store (db s)"
  "tbl_directories (db (snd (recordStepEnd isoNow n out ms s))) = tbl_directories (db s)"
  "job_ids (db (snd (recordStepEnd isoNow n out ms s))) = job_ids (db s)"
  by (auto simp add: recordStepEnd_def Let_def storeStepOutput_def job_ids_def
      input_path_distinct split: option.splits)

lemma recordStepEnd_known:
  "job_known s \<Longrightarrow> fst (recordStepEnd isoNow n out ms s) = None"
  by (auto simp add: recordStepEnd_def Let_def storeStepOutput_def job_known_def
      split: option.splits)

lemma recordStepEnd_output:
  assumes "job_known s" and "currentStep (recorder s) = Some cur" and "sr_stepName cur = n"
  shows "files (snd (recordStepEnd isoNow n out ms s))
           (path_join (debugDir (recorder s)) (n @ ''_output.json'')) = Some (FOutput out)"
  using assms
  by (simp add: recordStepEnd_def Let_def storeStepOutput_def job_known_def)






text \<open>
  The wrapper without and with the job row of the recorder's identifier: without it, the
  insert of \<open>recordStepStart\<close> violates the foreign key, the \<open>catch\<close> block's own insert
  does so again, and the stage function is not called; with it, a stage that returns is
  recorded with its output.
\<close>

lemma jobs_ops_frame:
  "store (updateStatus now jid status msg d) = store d"
  "store (updateCurrentStep jid step d) = store d"
  "store (updateStats jid a b c e d) = store d"
  "store (updateLastScraped now i n d) = store d"
  "job_ids (updateStatus now jid status msg d) = job_ids d"
  "job_ids (updateCurrentStep jid step d) = job_ids d"
  "job_ids (updateStats jid a b c e d) = job_ids d"
  "job_ids (updateLastScraped now i n d) = job_ids d"
  "tbl_directories (updateStatus now jid status msg d) = tbl_directories d"
  "tbl_directories (updateCurrentStep jid step d) = tbl_directories d"
  "tbl_directories (updateStats jid a b c e d) = tbl_directories d"
  by (simp_all add: updateStatus_def updateCurrentStep_def updateStats_def update_jobs_def
      updateLastScraped_def job_ids_def comp_def)



lemma runStepWithTracking_known:
  assumes known: "job_known s"
    and fn: "\<And>d. store d = store (db s) \<Longrightarrow> tbl_directories d = tbl_directories (db s) \<Longrightarrow>
               fst (stepFn d) = Inr v \<and> store (snd (stepFn d)) = st' \<and>
               tbl_directories (snd (stepFn d)) = tbl_directories d \<and>
               job_ids (snd (stepFn d)) = job_ids d"
  shows "fst (runStepWithTracking env wrap ctx n stepFn s) = Inr v"
    and "store (db (snd (runStepWithTracking env wrap ctx n stepFn s))) = st'"
    and "tbl_directories (db (snd (runStepWithTracking env wrap ctx n stepFn s))) = tbl_directories (db s)"
    and "job_known (snd (runStepWithTracking env wrap ctx n stepFn s))"
    and "files (snd (runStepWithTracking env wrap ctx n stepFn s))
           (path_join (debugDir (recorder s)) (n @ ''_output.json'')) = Some (FOutput (wrap v))"
proof -
  define s0 where "s0 = s\<lparr> db := updateCurrentStep (ctx_jobId ctx) n (db s) \<rparr>"
  have k0: "job_known s0" using known by (simp add: s0_def job_known_def jobs_ops_frame)
  obtain e s1 where start: "recordStepStart (env_iso env) n (JObj []) s0 = (e, s1)"
    by (cases "recordStepStart (env_iso env) n (JObj []) s0")
  note f = recordStepStart_facts[of "env_iso env" n "JObj []" s0, unfolded start fst_conv snd_conv]
  have e: "e = None" using f(8) k0 by simp
  have s1: "store (db s1) = store (db s)" "tbl_directories (db s1) = tbl_directories (db s)"
    "job_ids (db s1) = job_ids (db s)" "rec_jobId (recorder s1) = rec_jobId (recorder s)"
    using f(3-6) by (simp_all add: s0_def jobs_ops_frame)
  obtain d where d: "stepFn (db s1) = (Inr v, d)" "store d = st'"
    "tbl_directories d = tbl_directories (db s)" "job_ids d = job_ids (db s)"
    using fn[OF s1(1,2)] s1 by (cases "stepFn (db s1)") auto
  define s2 where "s2 = s1\<lparr> db := d \<rparr>"
  have k2: "job_known s2" using known s1 d by (simp add: s2_def job_known_def)
  obtain e3 s3 where en: "recordStepEnd (env_iso env) n (wrap v) 0 s2 = (e3, s3)"
    by (cases "recordStepEnd (env_iso env) n (wrap v) 0 s2")
  note g = recordStepEnd_facts[of "env_iso env" n "wrap v" 0 s2, unfolded en fst_conv snd_conv]
  have e3: "e3 = None" using recordStepEnd_known[OF k2, of "env_iso env" n "wrap v" 0] en by simp
  have run: "runStepWithTracking env wrap ctx n stepFn s = (Inr v, s3)"
    using start e d(1) en e3
    by (simp add: runStepWithTracking_def Let_def s0_def[symmetric] s2_def[symmetric])
  show "fst (runStepWithTracking env wrap ctx n stepFn s) = Inr v" by (simp add: run)
  show "store (db (snd (runStepWithTracking env wrap ctx n stepFn s))) = st'"
    using g(4) d(2) by (simp add: run s2_def)
  show "tbl_directories (db (snd (runStepWithTracking env wrap ctx n stepFn s))) = tbl_directories (db s)"
    using g(5) d(3) by (simp add: run s2_def)
  show "job_known (snd (runStepWithTracking env wrap ctx n stepFn s))"
    using g(3,6) k2 by (simp add: run job_known_def)
  obtain cur where cur: "currentStep (recorder s2) = Some cur" "sr_stepName cur = n"
    using f(7) by (auto simp add: s2_def)
  have "debugDir (recorder s2) = debugDir (recorder s)" using f(2) by (simp add: s2_def s0_def)
  then show "files (snd (runStepWithTracking env wrap ctx n stepFn s))
           (path_join (debugDir (recorder s)) (n @ ''_output.json'')) = Some (FOutput (wrap v))"
    using recordStepEnd_output[OF k2 cur, of "env_iso env" "wrap v" 0] en by (simp add: run)
qed



section \<open>Runs of the pipeline\<close>




























section \<open>The example runs\<close>















lemma runStepWithTracking_records_output:
  assumes "job_known s" and "debugDir (recorder s) = path_join jobs_dir (rec_jobId (recorder s))"
  shows "loadStepOutput (files (snd (runStepWithTracking env wrap ctx n (\<lambda>d. (Inr v, d)) s)))
           (rec_jobId (recorder s)) n = Some (FOutput (wrap v))"
  using runStepWithTracking_known(5)[OF assms(1), of "\<lambda>d. (Inr v, d)" v "store (db s)" env wrap ctx n]
    assms(2)
  by (simp add: loadStepOutput_def)

end
